theory Spec2Isabelle
  imports Main "HOL-Library.AList"
begin

section \<open>Python values and the string built-ins the module relies on\<close>

text \<open>
  The module is dynamically typed: an answer of the host is \<^verbatim>\<open>None\<close> (the user
  cancelled), a string (text input, choice) or a boolean (yes/no question); the default
  password length is the integer 15. Strings are lists of 8-bit characters, which covers
  the code points below 256 (\<^verbatim>\<open>'\x9B'\<close> is the single character \<open>0x9B\<close>).
\<close>

datatype pyval = PNone | PStr string | PBool bool | PInt int

datatype error = IndexError | KeyError | TypeError | ValueError | SameFileError | OSError

text \<open>Truth value testing: \<^verbatim>\<open>not x\<close> is \<open>\<not> truthy x\<close>.\<close>

fun truthy :: "pyval \<Rightarrow> bool" where
  "truthy PNone = False"
| "truthy (PStr s) = (s \<noteq> [])"
| "truthy (PBool b) = b"
| "truthy (PInt n) = (n \<noteq> 0)"

text \<open>\<^verbatim>\<open>str.isspace\<close> on one character, for the code points below 256.\<close>

definition isspace :: "char \<Rightarrow> bool" where
  "isspace c = (c \<in> set [CHR 0x09, CHR 0x0A, CHR 0x0B, CHR 0x0C, CHR 0x0D, CHR 0x1C,
     CHR 0x1D, CHR 0x1E, CHR 0x1F, CHR 0x20, CHR 0x85, CHR 0xA0])"

text \<open>
  \<^verbatim>\<open>str.split()\<close> without arguments: the maximal runs of non-whitespace characters.
  The first argument is the word being read.
\<close>

fun split_acc :: "string \<Rightarrow> string \<Rightarrow> string list" where
  "split_acc cur [] = (if cur = [] then [] else [cur])"
| "split_acc cur (c # cs) =
     (if isspace c then (if cur = [] then split_acc [] cs else cur # split_acc [] cs)
      else split_acc (cur @ [c]) cs)"

definition split :: "string \<Rightarrow> string list" where
  "split s = split_acc [] s"

text \<open>\<^verbatim>\<open>sep.join(xs)\<close>.\<close>

fun join :: "string \<Rightarrow> string list \<Rightarrow> string" where
  "join sep [] = []"
| "join sep [x] = x"
| "join sep (x # y # ys) = x @ sep @ join sep (y # ys)"

text \<open>\<^verbatim>\<open>str.rstrip()\<close> and \<^verbatim>\<open>str.strip()\<close> without arguments.\<close>

definition rstrip :: "string \<Rightarrow> string" where
  "rstrip s = rev (dropWhile isspace (rev s))"

definition strip :: "string \<Rightarrow> string" where
  "strip s = dropWhile isspace (rstrip s)"

text \<open>
  \<^verbatim>\<open>str.splitlines()\<close>: the line boundaries below code point 256 are
  \<^verbatim>\<open>\n \r \r\n \x0b \x0c \x1c \x1d \x1e \x85\<close>; a final line break opens no empty line.
\<close>

definition is_linebreak :: "char \<Rightarrow> bool" where
  "is_linebreak c = (c \<in> set [CHR 0x0A, CHR 0x0B, CHR 0x0C, CHR 0x0D, CHR 0x1C, CHR 0x1D,
     CHR 0x1E, CHR 0x85])"

fun splitlines_acc :: "string \<Rightarrow> string \<Rightarrow> string list" where
  "splitlines_acc cur [] = (if cur = [] then [] else [cur])"
| "splitlines_acc cur (c # cs) =
     (if c = CHR 0x0D then
        (case cs of
           [] \<Rightarrow> [cur]
         | d # ds \<Rightarrow> if d = CHR 0x0A then cur # splitlines_acc [] ds
                     else cur # splitlines_acc [] (d # ds))
      else if is_linebreak c then cur # splitlines_acc [] cs
      else splitlines_acc (cur @ [c]) cs)"

definition splitlines :: "string \<Rightarrow> string list" where
  "splitlines s = splitlines_acc [] s"

text \<open>\<^verbatim>\<open>str(x)\<close>, which is what \<^verbatim>\<open>"{}".format(x)\<close> inserts.\<close>

definition digit_char :: "nat \<Rightarrow> char" where
  "digit_char d = char_of (48 + d)"

fun str_nat :: "nat \<Rightarrow> string" where
  "str_nat n = (if n < 10 then [digit_char n] else str_nat (n div 10) @ [digit_char (n mod 10)])"

definition str_int :: "int \<Rightarrow> string" where
  "str_int i = (if i < 0 then CHR ''-'' # str_nat (nat (- i)) else str_nat (nat i))"

fun py_str :: "pyval \<Rightarrow> string" where
  "py_str PNone = ''None''"
| "py_str (PStr s) = s"
| "py_str (PBool b) = (if b then ''True'' else ''False'')"
| "py_str (PInt n) = str_int n"

text \<open>
  \<^verbatim>\<open>int(x)\<close>. On a string: surrounding whitespace is dropped, one sign is allowed, then
  decimal digits, with single underscores between digits; anything else raises
  \<^verbatim>\<open>ValueError\<close>. (The limit on the number of digits of recent interpreters is not
  modelled.)
\<close>

definition isdigit :: "char \<Rightarrow> bool" where
  "isdigit c = ((48::nat) \<le> of_char c \<and> (of_char c :: nat) \<le> 57)"

fun digits_ok :: "bool \<Rightarrow> string \<Rightarrow> bool" where
  "digits_ok after_digit [] = after_digit"
| "digits_ok after_digit (c # cs) =
     (if isdigit c then digits_ok True cs
      else if c = CHR ''_'' \<and> after_digit then
        (case cs of [] \<Rightarrow> False | d # ds \<Rightarrow> isdigit d \<and> digits_ok True cs)
      else False)"

fun digits_value :: "nat \<Rightarrow> string \<Rightarrow> nat" where
  "digits_value acc [] = acc"
| "digits_value acc (c # cs) =
     (if isdigit c then digits_value (10 * acc + (of_char c - 48)) cs
      else digits_value acc cs)"

definition int_of_str :: "string \<Rightarrow> error + int" where
  "int_of_str s =
     (let t = strip s;
          neg = (case t of [] \<Rightarrow> False | c # _ \<Rightarrow> c = CHR ''-'');
          body = (case t of [] \<Rightarrow> []
                  | c # cs \<Rightarrow> if c = CHR ''-'' \<or> c = CHR ''+'' then cs else t)
      in if digits_ok False body
         then Inr (if neg then - int (digits_value 0 body) else int (digits_value 0 body))
         else Inl ValueError)"

fun py_int :: "pyval \<Rightarrow> error + int" where
  "py_int PNone = Inl TypeError"
| "py_int (PStr s) = int_of_str s"
| "py_int (PBool b) = Inr (if b then 1 else 0)"
| "py_int (PInt n) = Inr n"

text \<open>\<^verbatim>\<open>os.path.join(a, b)\<close> of \<^verbatim>\<open>posixpath\<close>, for two components.\<close>

definition os_path_join :: "string \<Rightarrow> string \<Rightarrow> string" where
  "os_path_join a b =
     (if b \<noteq> [] \<and> hd b = CHR ''/'' then b
      else if a = [] \<or> last a = CHR ''/'' then a @ b
      else a @ ''/'' @ b)"

section \<open>The host's actions, the collaborators and the module's state\<close>

text \<open>
  \<^verbatim>\<open>SelectionType\<close> and \<^verbatim>\<open>Action\<close> belong to the host's helper package; the
  constructors below are the members the module uses, each with the payload the module
  puts on the queue after it. A selection is a list of frames.
\<close>

datatype selection_type = SelEntry | SelCommand | SelNone

record frame =
  sel_type :: selection_type
  sel_value :: string
  sel_context_option :: "string option"

datatype action =
    Critical_error string
  | Add_entry string
  | Set_entry_info string string
  | Set_entry_context string "string list"
  | Set_base_context "string list"
  | Set_header
  | Replace_command_list "string list"
  | Replace_entry_list "string list"
  | Set_selection "frame list"
  | Ask_input string pyval string
  | Ask_input_multi_line string pyval string
  | Ask_choice string "string list" string
  | Ask_question string string
  | Copy_to_clipboard string
  | Close

text \<open>
  The calls that leave the module for the password store, the file system and the OTP
  objects, in the order they are made. \<open>Init_store\<close> records the key id only: its second
  argument in the source is always the bound method \<^verbatim>\<open>self._get_data_location\<close>.
\<close>

datatype call =
    Get_passwords_list
  | Get_decrypted_password pyval
  | Insert_password pyval pyval
  | Generate_password pyval int
  | Init_store pyval
  | Copyfile string string
  | Os_remove string
  | Os_rename string string
  | Otp_now string
  | Otp_generate_otp string

text \<open>What \<^verbatim>\<open>pyotp.parse_uri\<close> returns: a time-based or a counter-based object.\<close>

datatype otp = TOTP | HOTP

text \<open>
  The collaborators are parameters of the model. A call that touches the store, the file
  system or the clock answers as a function of the calls made before it and of its
  arguments, with \<open>Inl\<close> for an exception it raises. \<open>gettext\<close> is the installed
  translation \<^verbatim>\<open>_\<close>; \<open>format_msg\<close> is \<^verbatim>\<open>str.format\<close> on a translated template with one
  argument, \<open>format_selection\<close> the same with a selection as the argument and
  \<open>format_info\<close> the same with the three arguments of an entry's tooltip. Access and
  modification times are whole numbers here; \<open>format_datetime\<close> includes the locale.
\<close>

record world =
  gettext :: "string \<Rightarrow> string"
  format_msg :: "string \<Rightarrow> pyval \<Rightarrow> string"
  format_selection :: "string \<Rightarrow> frame list \<Rightarrow> string"
  reply_get_decrypted_password :: "call list \<Rightarrow> pyval \<Rightarrow> error + string option"
  reply_insert_password :: "call list \<Rightarrow> pyval \<Rightarrow> pyval \<Rightarrow> error + unit"
  reply_generate_password :: "call list \<Rightarrow> pyval \<Rightarrow> int \<Rightarrow> error + string"
  reply_init :: "call list \<Rightarrow> pyval \<Rightarrow> error + unit"
  reply_copyfile :: "call list \<Rightarrow> string \<Rightarrow> string \<Rightarrow> error + unit"
  reply_remove :: "call list \<Rightarrow> string \<Rightarrow> error + unit"
  reply_rename :: "call list \<Rightarrow> string \<Rightarrow> string \<Rightarrow> error + unit"
  totp_provisioning_uri :: "pyval \<Rightarrow> error + string"
  hotp_provisioning_uri :: "pyval \<Rightarrow> error + string"
  parse_uri :: "string \<Rightarrow> error + otp"
  reply_now :: "call list \<Rightarrow> string \<Rightarrow> error + string"
  reply_generate_otp :: "call list \<Rightarrow> string \<Rightarrow> error + string"
  reply_get_passwords_list :: "call list \<Rightarrow> error + string list"
  getatime :: "call list \<Rightarrow> string \<Rightarrow> error + int"
  getmtime :: "call list \<Rightarrow> string \<Rightarrow> error + int"
  format_datetime :: "int \<Rightarrow> string"
  html_escape :: "string \<Rightarrow> string"
  format_info :: "string \<Rightarrow> string \<Rightarrow> string \<Rightarrow> string \<Rightarrow> string"

text \<open>
  The module object together with what it has sent out: the queue \<open>q\<close> of actions, the
  calls made, the session cache \<open>passwordEntries\<close> (a dictionary, in insertion order),
  the store's directory and the host's API version from the settings.
\<close>

record state =
  q :: "action list"
  calls :: "call list"
  passwordEntries :: "(string \<times> string) list"
  data_location :: string
  api_version :: "nat list"

type_synonym outcome = "error option \<times> state"

definition put :: "action \<Rightarrow> state \<Rightarrow> state" where
  "put a s = s\<lparr>q := q s @ [a]\<rparr>"

definition called :: "call \<Rightarrow> state \<Rightarrow> state" where
  "called c s = s\<lparr>calls := calls s @ [c]\<rparr>"

definition entry_path :: "state \<Rightarrow> pyval \<Rightarrow> string" where
  "entry_path s name = os_path_join (data_location s) (py_str name @ ''.gpg'')"

definition opt_val :: "string option \<Rightarrow> pyval" where
  "opt_val x = (case x of None \<Rightarrow> PNone | Some v \<Rightarrow> PStr v)"

text \<open>A call whose result is not used: it returns, or its exception propagates.\<close>

definition finish :: "error + unit \<Rightarrow> state \<Rightarrow> outcome" where
  "finish r s = (case r of Inl e \<Rightarrow> (Some e, s) | Inr _ \<Rightarrow> (None, s))"

section \<open>The operations\<close>

text \<open>
  The private methods \<^verbatim>\<open>_insert\<close>, \<^verbatim>\<open>_edit\<close>, ... are \<open>m_insert\<close>, \<open>m_edit\<close>, ...; a
  parameter left at its default is \<open>PNone\<close>. An outcome is the exception that left the
  method, if any, and the state reached.
\<close>

definition m_insert :: "world \<Rightarrow> pyval \<Rightarrow> pyval \<Rightarrow> state \<Rightarrow> outcome" where
  "m_insert W name val s =
     (if \<not> truthy name then
        (None, put (Ask_input (gettext W ''What is the name of the password?'') (PStr []) ''insert'') s)
      else if \<not> truthy val then
        (None, put (Ask_input_multi_line
           (format_msg W (gettext W ''What should the value of {} be?'') name) (PStr [])
           (''insert '' @ py_str name)) s)
      else
        (case reply_insert_password W (calls s) name val of
           Inl e \<Rightarrow> (Some e, called (Insert_password name val) s)
         | Inr _ \<Rightarrow> (None, put (Set_selection []) (called (Insert_password name val) s))))"

definition m_edit :: "world \<Rightarrow> pyval \<Rightarrow> pyval \<Rightarrow> state \<Rightarrow> outcome" where
  "m_edit W name val s =
     (if \<not> truthy name then
        (None, put (Ask_input (gettext W ''What is the name of the password to edit?'') (PStr []) ''edit'') s)
      else if \<not> truthy val then
        (case reply_get_decrypted_password W (calls s) name of
           Inl e \<Rightarrow> (Some e, called (Get_decrypted_password name) s)
         | Inr current_data \<Rightarrow>
             (None, put (Ask_input_multi_line
                (format_msg W (gettext W ''What should the value of {} be?'') name)
                (opt_val current_data) (''edit '' @ py_str name))
                (called (Get_decrypted_password name) s)))
      else
        (case reply_insert_password W (calls s) name val of
           Inl e \<Rightarrow> (Some e, called (Insert_password name val) s)
         | Inr _ \<Rightarrow> (None, put (Set_selection []) (called (Insert_password name val) s))))"

definition m_generate :: "world \<Rightarrow> pyval \<Rightarrow> pyval \<Rightarrow> state \<Rightarrow> outcome" where
  "m_generate W name len s =
     (if \<not> truthy name then
        (None, put (Ask_input (gettext W ''Generate a random password under which name?'') (PStr [])
           ''generate'') s)
      else if \<not> truthy len then
        (None, put (Ask_input (gettext W ''How many characters long should the password be?'')
           (PStr ''15'') (''generate '' @ py_str name)) s)
      else
        (case py_int len of
           Inl e \<Rightarrow> (Some e, s)
         | Inr n \<Rightarrow>
             (case reply_generate_password W (calls s) name n of
                Inl e \<Rightarrow> (Some e, called (Generate_password name n) s)
              | Inr password \<Rightarrow>
                  m_insert W name (PStr password) (called (Generate_password name n) s))))"

definition m_init :: "world \<Rightarrow> pyval \<Rightarrow> state \<Rightarrow> outcome" where
  "m_init W gpg_id s =
     (if \<not> truthy gpg_id then
        (None, put (Ask_input
           (gettext W ''Please provide a GPG ID to initialize this directory with.'') (PStr [])
           ''init'') s)
      else
        (case reply_init W (calls s) gpg_id of
           Inl e \<Rightarrow> (Some e, called (Init_store gpg_id) s)
         | Inr _ \<Rightarrow> (None, put (Set_selection []) (called (Init_store gpg_id) s))))"

definition m_copy :: "world \<Rightarrow> pyval \<Rightarrow> pyval \<Rightarrow> state \<Rightarrow> outcome" where
  "m_copy W name copy_name s =
     (if \<not> truthy name then
        (None, put (Ask_input (gettext W ''Copy which password?'') (PStr []) ''copy'') s)
      else if \<not> truthy copy_name then
        (None, put (Ask_input
           (format_msg W (gettext W ''What should the copy of {} be named?'') name) name
           (''copy '' @ py_str name)) s)
      else
        (case reply_copyfile W (calls s) (entry_path s name) (entry_path s copy_name) of
           Inl e \<Rightarrow>
             (if e = SameFileError then
                (None, put (Ask_input
                   (format_msg W (gettext W ''What should the copy of {} be named?'') name) name
                   (''copy '' @ py_str name))
                   (called (Copyfile (entry_path s name) (entry_path s copy_name)) s))
              else (Some e, called (Copyfile (entry_path s name) (entry_path s copy_name)) s))
         | Inr _ \<Rightarrow>
             (None, put (Set_selection [])
                (called (Copyfile (entry_path s name) (entry_path s copy_name)) s))))"

definition m_remove :: "world \<Rightarrow> pyval \<Rightarrow> pyval \<Rightarrow> state \<Rightarrow> outcome" where
  "m_remove W name confirmed s =
     (if \<not> truthy name then
        (None, put (Ask_input (gettext W ''Remove which password?'') (PStr []) ''remove'') s)
      else if confirmed = PNone then
        (None, put (Ask_question
           (format_msg W (gettext W ''Are you sure you want to remove {}?'') name)
           (''remove '' @ py_str name)) s)
      else if \<not> truthy confirmed then (None, s)
      else
        (case reply_remove W (calls s) (entry_path s name) of
           Inl e \<Rightarrow> (Some e, called (Os_remove (entry_path s name)) s)
         | Inr _ \<Rightarrow> (None, put (Set_selection []) (called (Os_remove (entry_path s name)) s))))"

definition m_rename :: "world \<Rightarrow> pyval \<Rightarrow> pyval \<Rightarrow> state \<Rightarrow> outcome" where
  "m_rename W name new_name s =
     (if \<not> truthy name then
        (None, put (Ask_input (gettext W ''Rename which password?'') (PStr []) ''rename'') s)
      else if \<not> truthy new_name then
        (None, put (Ask_input
           (format_msg W (gettext W ''What should the new name of {} be?'') name) name
           (''rename '' @ py_str name)) s)
      else
        (case reply_rename W (calls s) (entry_path s name) (entry_path s new_name) of
           Inl e \<Rightarrow>
             (Some e, called (Os_rename (entry_path s name) (entry_path s new_name)) s)
         | Inr _ \<Rightarrow>
             (None, put (Set_selection [])
                (called (Os_rename (entry_path s name) (entry_path s new_name)) s))))"

text \<open>
  The last branch of \<^verbatim>\<open>_add_otp\<close>: the provisioning URI is built first (\<open>None\<close> below is
  the silent \<^verbatim>\<open>return\<close> on an unknown type), then the entry is read and written back with
  the URI on a new line.
\<close>

definition otp_uri :: "world \<Rightarrow> pyval \<Rightarrow> pyval \<Rightarrow> (error + string) option" where
  "otp_uri W otp_type secret =
     (if otp_type = PStr ''TOTP'' then Some (totp_provisioning_uri W secret)
      else if otp_type = PStr ''HOTP'' then Some (hotp_provisioning_uri W secret)
      else None)"

definition m_add_otp :: "world \<Rightarrow> pyval \<Rightarrow> pyval \<Rightarrow> pyval \<Rightarrow> state \<Rightarrow> outcome" where
  "m_add_otp W name otp_type secret s =
     (if \<not> truthy name then
        (None, put (Ask_input (gettext W ''Add OTP to which password?'') (PStr []) ''add_otp'') s)
      else if \<not> truthy otp_type then
        (None, put (Ask_choice (gettext W ''Use which OTP type?'') [''TOTP'', ''HOTP'']
           (''add_otp '' @ py_str name)) s)
      else if \<not> truthy secret then
        (None, put (Ask_input (gettext W ''What is the OTP secret?'') (PStr [])
           (''add_otp '' @ py_str name @ '' '' @ py_str otp_type)) s)
      else
        (case otp_uri W otp_type secret of
           None \<Rightarrow> (None, s)
         | Some (Inl e) \<Rightarrow> (Some e, s)
         | Some (Inr uri) \<Rightarrow>
             (case reply_get_decrypted_password W (calls s) name of
                Inl e \<Rightarrow> (Some e, called (Get_decrypted_password name) s)
              | Inr current_data \<Rightarrow>
                  finish
                    (reply_insert_password W (calls s @ [Get_decrypted_password name]) name
                       (PStr (py_str (opt_val current_data) @ [CHR 0x0A] @ uri)))
                    (called (Insert_password name
                       (PStr (py_str (opt_val current_data) @ [CHR 0x0A] @ uri)))
                       (called (Get_decrypted_password name) s)))))"

section \<open>Answers of the host: \<^verbatim>\<open>process_response\<close>\<close>

text \<open>
  \<^verbatim>\<open>process_response\<close> is one chain of tests that ends in exactly one statement.
  \<open>select_line\<close> is the chain from line 89 on: applied to the answer and to
  \<^verbatim>\<open>data = identifier.split()\<close>, it gives the source line of the statement the chain
  arrives at (\<^verbatim>\<open>data[0]\<close> raises on an empty list). \<open>run_line\<close> is the statement on
  that line.
\<close>

definition select_line :: "pyval \<Rightarrow> string list \<Rightarrow> error + nat" where
  "select_line response data =
     (if data = [] then Inl IndexError
      else if hd data = ''add_otp'' then
        (if length data = 1 then (if response \<noteq> PNone then Inr 93 else Inr 95)
         else if response \<noteq> PNone then
           (if last data \<in> set [''TOTP'', ''HOTP''] then Inr 99 else Inr 101)
         else
           (if last data \<in> set [''TOTP'', ''HOTP''] then Inr 104 else Inr 106))
      else if hd data = ''copy'' then
        (if length data = 1 then (if response \<noteq> PNone then Inr 110 else Inr 112)
         else (if response \<noteq> PNone then Inr 115 else Inr 117))
      else if hd data = ''edit'' then
        (if length data = 1 then (if response \<noteq> PNone then Inr 121 else Inr 123)
         else (if response \<noteq> PNone then Inr 126 else Inr 128))
      else if hd data = ''generate'' then
        (if length data = 1 then (if response \<noteq> PNone then Inr 132 else Inr 134)
         else (if response \<noteq> PNone then Inr 137 else Inr 139))
      else if hd data = ''init'' then
        (if response \<noteq> PNone then Inr 142 else Inr 144)
      else if hd data = ''insert'' then
        (if length data = 1 then (if response \<noteq> PNone then Inr 148 else Inr 150)
         else (if response \<noteq> PNone then Inr 153 else Inr 155))
      else if hd data = ''remove'' then
        (if length data = 1 then (if response \<noteq> PNone then Inr 159 else Inr 161)
         else (if response \<noteq> PNone then Inr 164 else Inr 166))
      else if hd data = ''rename'' then
        (if length data = 1 then (if response \<noteq> PNone then Inr 170 else Inr 172)
         else (if response \<noteq> PNone then Inr 175 else Inr 177))
      else Inr 179)"

text \<open>
  Line 104 passes \<^verbatim>\<open>otp_type\<close> as a keyword argument to \<^verbatim>\<open>str.join\<close>, which takes
  none: the call raises \<^verbatim>\<open>TypeError\<close> before \<^verbatim>\<open>_add_otp\<close> is entered.
\<close>

definition run_line :: "world \<Rightarrow> nat \<Rightarrow> pyval \<Rightarrow> string list \<Rightarrow> state \<Rightarrow> outcome" where
  "run_line W l response data s =
     (if l = 87 then (None, s)
      else if l = 93 then m_add_otp W response PNone PNone s
      else if l = 95 then m_add_otp W PNone PNone PNone s
      else if l = 99 then
        m_add_otp W (PStr (join '' '' (butlast (tl data)))) (PStr (last data)) response s
      else if l = 101 then m_add_otp W (PStr (join '' '' (tl data))) response PNone s
      else if l = 104 then (Some TypeError, s)
      else if l = 106 then m_add_otp W (PStr (join '' '' (tl data))) PNone PNone s
      else if l = 110 then m_copy W response PNone s
      else if l = 112 then m_copy W PNone PNone s
      else if l = 115 then m_copy W (PStr (join '' '' (tl data))) response s
      else if l = 117 then m_copy W (PStr (join '' '' (tl data))) PNone s
      else if l = 121 then m_edit W response PNone s
      else if l = 123 then m_edit W PNone PNone s
      else if l = 126 then m_edit W (PStr (join '' '' (tl data))) response s
      else if l = 128 then m_edit W (PStr (join '' '' (tl data))) PNone s
      else if l = 132 then m_generate W response PNone s
      else if l = 134 then m_generate W PNone PNone s
      else if l = 137 then
        m_generate W (PStr (join '' '' (tl data))) (if truthy response then response else PInt 15) s
      else if l = 139 then m_generate W (PStr (join '' '' (tl data))) PNone s
      else if l = 142 then m_init W response s
      else if l = 144 then m_init W PNone s
      else if l = 148 then m_insert W response PNone s
      else if l = 150 then m_insert W PNone PNone s
      else if l = 153 then m_insert W (PStr (join '' '' (tl data))) response s
      else if l = 155 then m_insert W (PStr (join '' '' (tl data))) PNone s
      else if l = 159 then m_remove W response PNone s
      else if l = 161 then m_remove W PNone PNone s
      else if l = 164 then m_remove W (PStr (join '' '' (tl data))) response s
      else if l = 166 then m_remove W (PStr (join '' '' (tl data))) PNone s
      else if l = 170 then m_rename W response PNone s
      else if l = 172 then m_rename W PNone PNone s
      else if l = 175 then m_rename W (PStr (join '' '' (tl data))) response s
      else if l = 177 then m_rename W (PStr (join '' '' (tl data))) PNone s
      else if l = 179 then
        (None, put (Critical_error
           (format_msg W (gettext W ''Unknown request received: {}'') (PStr (join '' '' data)))) s)
      else (None, s))"

text \<open>
  The statement \<^verbatim>\<open>process_response\<close> ends in: the \<^verbatim>\<open>return\<close> of line 87 when the
  answer is \<^verbatim>\<open>None\<close>, the statement \<open>select_line\<close> arrives at otherwise.
\<close>

definition executed_line :: "pyval \<Rightarrow> string \<Rightarrow> error + nat" where
  "executed_line response identifier =
     (if response = PNone then Inr 87 else select_line response (split identifier))"

definition process_response :: "world \<Rightarrow> pyval \<Rightarrow> string \<Rightarrow> state \<Rightarrow> outcome" where
  "process_response W response identifier s =
     (case executed_line response identifier of
        Inl e \<Rightarrow> (Some e, s)
      | Inr l \<Rightarrow> run_line W l response (split identifier) s)"

section \<open>Selections: \<^verbatim>\<open>_get_entries\<close> and \<^verbatim>\<open>selection_made\<close>\<close>

text \<open>Comparison of two lists of numbers, as \<^verbatim>\<open><\<close> compares Python lists.\<close>

fun list_less :: "nat list \<Rightarrow> nat list \<Rightarrow> bool" where
  "list_less [] [] = False"
| "list_less [] (y # ys) = True"
| "list_less (x # xs) [] = False"
| "list_less (x # xs) (y # ys) = (if x = y then list_less xs ys else x < y)"

text \<open>The keys of \<^verbatim>\<open>sorted\<close>, computed in list order; the first exception stops.\<close>

fun atime_keys :: "world \<Rightarrow> call list \<Rightarrow> string list \<Rightarrow> error + (string \<times> int) list" where
  "atime_keys W h [] = Inr []"
| "atime_keys W h (name # names) =
     (case getatime W h (name @ ''.gpg'') of
        Inl e \<Rightarrow> Inl e
      | Inr t \<Rightarrow>
          (case atime_keys W h names of
             Inl e \<Rightarrow> Inl e
           | Inr kts \<Rightarrow> Inr ((name, t) # kts)))"

text \<open>\<^verbatim>\<open>sorted(xs, key=..., reverse=True)\<close>: stable, descending.\<close>

definition sorted_reverse :: "(string \<times> int) list \<Rightarrow> string list" where
  "sorted_reverse kts = map fst (rev (sort_key snd (rev kts)))"

definition entry_context :: "world \<Rightarrow> state \<Rightarrow> string list" where
  "entry_context W s =
     (if list_less (api_version s) [0, 12, 0]
      then [gettext W ''Open'', gettext W ''Edit'', gettext W ''Copy'', gettext W ''Rename'',
            gettext W ''Remove'']
      else [gettext W ''Open'', gettext W ''Edit'', gettext W ''Copy'', gettext W ''Rename'',
            gettext W ''Add OTP''])"

fun list_entries :: "world \<Rightarrow> string list \<Rightarrow> state \<Rightarrow> outcome" where
  "list_entries W [] s = (None, s)"
| "list_entries W (password # rest) s =
     (let entry = drop (length (data_location s)) password;
          s1 = put (Add_entry entry) s
      in case getatime W (calls s) (password @ ''.gpg'') of
           Inl e \<Rightarrow> (Some e, s1)
         | Inr at \<Rightarrow>
             (case getmtime W (calls s) (password @ ''.gpg'') of
                Inl e \<Rightarrow> (Some e, s1)
              | Inr mt \<Rightarrow>
                  list_entries W rest
                    (put (Set_entry_context entry (entry_context W s))
                       (put (Set_entry_info entry
                          (format_info W
                             (gettext W ''<b>{}</b><br/><br/><b>Last opened</b><br/>{}<br/><br/><b>Last modified</b><br/>{}'')
                             (html_escape W entry) (format_datetime W at) (format_datetime W mt)))
                          s1))))"

definition m_get_entries :: "world \<Rightarrow> state \<Rightarrow> outcome" where
  "m_get_entries W s =
     (case reply_get_passwords_list W (calls s) of
        Inl e \<Rightarrow> (Some e, called Get_passwords_list s)
      | Inr passwords \<Rightarrow>
          (case atime_keys W (calls s @ [Get_passwords_list]) passwords of
             Inl e \<Rightarrow> (Some e, called Get_passwords_list s)
           | Inr kts \<Rightarrow> list_entries W (sorted_reverse kts) (called Get_passwords_list s)))"

text \<open>
  The loop that replaces every line \<^verbatim>\<open>pyotp.parse_uri\<close> accepts by its current code;
  a \<^verbatim>\<open>ValueError\<close> of the parser leaves the line as it is, any other exception, and any
  exception while the code is computed, leaves the method.
\<close>

definition otp_code :: "world \<Rightarrow> otp \<Rightarrow> string \<Rightarrow> state \<Rightarrow> (error + string) \<times> state" where
  "otp_code W ob line s =
     (case ob of
        TOTP \<Rightarrow> (reply_now W (calls s) line, called (Otp_now line) s)
      | HOTP \<Rightarrow> (reply_generate_otp W (calls s) line, called (Otp_generate_otp line) s))"

fun parse_otp :: "world \<Rightarrow> string list \<Rightarrow> state \<Rightarrow> (error + string list) \<times> state" where
  "parse_otp W [] s = (Inr [], s)"
| "parse_otp W (line # rest) s =
     (case parse_uri W line of
        Inl e \<Rightarrow>
          (if e = ValueError then
             (case parse_otp W rest s of
                (Inl e', s') \<Rightarrow> (Inl e', s')
              | (Inr ls, s') \<Rightarrow> (Inr (line # ls), s'))
           else (Inl e, s))
      | Inr ob \<Rightarrow>
          (case otp_code W ob line s of
             (Inl e, s1) \<Rightarrow> (Inl e, s1)
           | (Inr code, s1) \<Rightarrow>
               (case parse_otp W rest s1 of
                  (Inl e', s') \<Rightarrow> (Inl e', s')
                | (Inr ls, s') \<Rightarrow> (Inr ((''OTP: '' @ code) # ls), s'))))"

text \<open>The loop that fills the session cache and lists the fields (lines 349 to 355).\<close>

fun add_fields :: "string list \<Rightarrow> state \<Rightarrow> state" where
  "add_fields [] s = s"
| "add_fields (line # rest) s =
     add_fields rest
       (if length (passwordEntries s) = 0 then
          put (Add_entry ''********'')
            (s\<lparr>passwordEntries := AList.update ''********'' line (passwordEntries s)\<rparr>)
        else
          put (Add_entry line) (s\<lparr>passwordEntries := AList.update line line (passwordEntries s)\<rparr>))"

text \<open>Lines 319 to 355: an entry is opened.\<close>

definition open_entry :: "world \<Rightarrow> string \<Rightarrow> state \<Rightarrow> outcome" where
  "open_entry W v s =
     (case reply_get_decrypted_password W (calls s) (PStr v) of
        Inl e \<Rightarrow> (Some e, called (Get_decrypted_password (PStr v)) s)
      | Inr None \<Rightarrow> (None, put (Set_selection []) (called (Get_decrypted_password (PStr v)) s))
      | Inr (Some results) \<Rightarrow>
          (case parse_otp W (splitlines (rstrip results))
                  (put (Replace_command_list []) (put (Replace_entry_list [])
                     (called (Get_decrypted_password (PStr v)) s))) of
             (Inl e, s') \<Rightarrow> (Some e, s')
           | (Inr result_lines, s') \<Rightarrow>
               (if length result_lines = 1 then
                  (None, put Close (put (Copy_to_clipboard (result_lines ! 0)) s'))
                else (None, add_fields result_lines s'))))"

text \<open>\<^verbatim>\<open>s.split(sep, 1)\<close> for a separator that is not empty.\<close>

fun split1_acc :: "string \<Rightarrow> string \<Rightarrow> string \<Rightarrow> string list" where
  "split1_acc sep cur [] = [cur]"
| "split1_acc sep cur (c # cs) =
     (if take (length sep) (c # cs) = sep then [cur, drop (length sep) (c # cs)]
      else split1_acc sep (cur @ [c]) cs)"

definition split1 :: "string \<Rightarrow> string \<Rightarrow> string list" where
  "split1 sep s = split1_acc sep [] s"

text \<open>Lines 360 to 372: a field of the opened entry is chosen.\<close>

definition copy_field :: "frame list \<Rightarrow> state \<Rightarrow> outcome" where
  "copy_field selection s =
     (if sel_value (selection ! 1) = ''********'' then
        (case map_of (passwordEntries s) ''********'' of
           None \<Rightarrow> (Some KeyError, s)
         | Some content \<Rightarrow>
             (None, put Close ((put (Copy_to_clipboard content) s)\<lparr>passwordEntries := []\<rparr>)))
      else
        (case map_of (passwordEntries s) (sel_value (selection ! 1)) of
           None \<Rightarrow> (Some KeyError, s)
         | Some content \<Rightarrow>
             (let copyStringParts = split1 '': '' content;
                  copyString = (if length copyStringParts > 1 then copyStringParts ! 1
                                else copyStringParts ! 0)
              in (None, put Close ((put (Copy_to_clipboard copyString) s)\<lparr>passwordEntries := []\<rparr>)))))"

definition unexpected :: "world \<Rightarrow> frame list \<Rightarrow> state \<Rightarrow> outcome" where
  "unexpected W selection s =
     (None, put (Critical_error
        (format_selection W (gettext W ''Unexpected selection_made value: {}'') selection)) s)"

definition selection_made :: "world \<Rightarrow> frame list \<Rightarrow> state \<Rightarrow> outcome" where
  "selection_made W selection s =
     (if length selection = 0 then
        m_get_entries W
          (put (Replace_entry_list []) (put (Replace_command_list []) (put Set_header
             (s\<lparr>passwordEntries := []\<rparr>))))
      else if sel_type (last selection) = SelNone then
        (if sel_context_option (last selection) = Some (gettext W ''Create'') then
           m_insert W PNone PNone (put (Set_selection []) s)
         else if sel_context_option (last selection) = Some (gettext W ''Generate'') then
           m_generate W PNone PNone (put (Set_selection []) s)
         else unexpected W selection s)
      else if length selection = 1 then
        (if sel_type (selection ! 0) = SelEntry then
           (if sel_context_option (selection ! 0) = Some (gettext W ''Edit'') then
              m_edit W (PStr (sel_value (selection ! 0))) PNone (put (Set_selection []) s)
            else if sel_context_option (selection ! 0) = Some (gettext W ''Copy'') then
              m_copy W (PStr (sel_value (selection ! 0))) PNone (put (Set_selection []) s)
            else if sel_context_option (selection ! 0) = Some (gettext W ''Rename'') then
              m_rename W (PStr (sel_value (selection ! 0))) PNone (put (Set_selection []) s)
            else if sel_context_option (selection ! 0) = Some (gettext W ''Remove'') then
              m_remove W (PStr (sel_value (selection ! 0))) PNone (put (Set_selection []) s)
            else if sel_context_option (selection ! 0) = Some (gettext W ''Add OTP'') then
              m_add_otp W (PStr (sel_value (selection ! 0))) PNone PNone (put (Set_selection []) s)
            else open_entry W (sel_value (selection ! 0)) s)
         else unexpected W selection s)
      else if length selection = 2 then copy_field selection s
      else unexpected W selection s)"

text \<open>
  Line 59 compiles \<^verbatim>\<open>(\x9B|\x1B\[)[0-?]*[ -\/]*[@-~]\<close> into \<^verbatim>\<open>self.ANSIEscapeRegex\<close>.
  The three character classes are disjoint, so a match is the greedy one:
  \<open>ANSIEscapeRegex_match\<close> gives the text left after a match at the start of a string,
  \<open>ANSIEscapeRegex_search\<close> says whether the pattern matches anywhere.
\<close>

definition in_range :: "nat \<Rightarrow> nat \<Rightarrow> char \<Rightarrow> bool" where
  "in_range lo hi c = (lo \<le> of_char c \<and> (of_char c :: nat) \<le> hi)"

definition ansi_tail :: "string \<Rightarrow> string option" where
  "ansi_tail r =
     (case dropWhile (in_range 0x20 0x2F) (dropWhile (in_range 0x30 0x3F) r) of
        [] \<Rightarrow> None
      | c # rest \<Rightarrow> if in_range 0x40 0x7E c then Some rest else None)"

fun ANSIEscapeRegex_match :: "string \<Rightarrow> string option" where
  "ANSIEscapeRegex_match [] = None"
| "ANSIEscapeRegex_match (c # cs) =
     (if c = CHR 0x9B then ansi_tail cs
      else if c = CHR 0x1B then
        (case cs of [] \<Rightarrow> None | d # ds \<Rightarrow> if d = CHR ''['' then ansi_tail ds else None)
      else None)"

fun ANSIEscapeRegex_search :: "string \<Rightarrow> bool" where
  "ANSIEscapeRegex_search [] = False"
| "ANSIEscapeRegex_search (c # cs) =
     (case ANSIEscapeRegex_match (c # cs) of
        Some rest \<Rightarrow> True
      | None \<Rightarrow> ANSIEscapeRegex_search cs)"

section \<open>Notions used to state the properties\<close>

text \<open>
  The lines of \<^verbatim>\<open>process_response\<close> that stand in an \<^verbatim>\<open>else\<close> branch of a test
  \<^verbatim>\<open>response is not None\<close>.
\<close>

definition none_branches :: "nat list" where
  "none_branches = [95, 104, 106, 112, 117, 123, 128, 134, 139, 144, 150, 155, 161, 166, 172, 177]"

text \<open>
  The host's side of a prompt: every ask action carries its continuation token last, and
  the host hands the user's answer back with the token of the prompt it answers, here the
  prompt the module enqueued last. Nothing is answered after an exception.
\<close>

fun ask_token :: "action \<Rightarrow> string option" where
  "ask_token (Ask_input prompt prefill t) = Some t"
| "ask_token (Ask_input_multi_line prompt prefill t) = Some t"
| "ask_token (Ask_choice prompt options t) = Some t"
| "ask_token (Ask_question prompt t) = Some t"
| "ask_token a = None"

definition answer :: "world \<Rightarrow> pyval \<Rightarrow> outcome \<Rightarrow> outcome" where
  "answer W response oc =
     (case oc of
        (Some e, s) \<Rightarrow> (Some e, s)
      | (None, s) \<Rightarrow>
          (if q s = [] then (None, s)
           else case ask_token (last (q s)) of
                  None \<Rightarrow> (None, s)
                | Some t \<Rightarrow> process_response W response t s))"

fun answers :: "world \<Rightarrow> pyval list \<Rightarrow> outcome \<Rightarrow> outcome" where
  "answers W [] oc = oc"
| "answers W (r # rs) oc = answers W rs (answer W r oc)"

text \<open>What the collaborators see of an outcome: the calls made, and the exception if any.\<close>

definition backend :: "outcome \<Rightarrow> error option \<times> call list" where
  "backend oc = (fst oc, calls (snd oc))"

text \<open>
  A name that survives a continuation token: it is not empty and it is the space-join of
  its own words (no whitespace in front or behind, single spaces between words).
\<close>

definition plain_name :: "string \<Rightarrow> bool" where
  "plain_name name = (name \<noteq> [] \<and> join '' '' (split name) = name)"

text \<open>\<^verbatim>\<open>sep in s\<close> for strings.\<close>

fun contains :: "string \<Rightarrow> string \<Rightarrow> bool" where
  "contains sep [] = (sep = [])"
| "contains sep (c # cs) = (if take (length sep) (c # cs) = sep then True else contains sep cs)"

subsection \<open>A concrete store\<close>

text \<open>
  A small world to run the model in: no translation is installed, a template's first
  \<^verbatim>\<open>{}\<close> takes the argument, the store holds three entries, every write succeeds,
  copying a file onto itself raises \<^verbatim>\<open>SameFileError\<close>, and a line is an OTP URI when it
  starts with \<^verbatim>\<open>otpauth://\<close>.
\<close>

fun fill :: "string \<Rightarrow> string \<Rightarrow> string" where
  "fill [] a = []"
| "fill (c # cs) a =
     (if c = CHR ''{'' \<and> take 1 cs = ''}'' then a @ drop 1 cs else c # fill cs a)"

definition demo_entries :: "pyval \<Rightarrow> string option" where
  "demo_entries name =
     (if name = PStr ''mail'' then Some (''hunter2'' @ [CHR 0x0A])
      else if name = PStr ''colour'' then Some (CHR 0x1B # ''[31mhunter2'')
      else if name = PStr ''bank'' then
        Some (''key: s3cret'' @ [CHR 0x0A] @ ''url: https://x'' @ [CHR 0x0A] @ ''note'')
      else None)"

definition demo_world :: world where
  "demo_world =
     \<lparr>gettext = (\<lambda>m. m),
      format_msg = (\<lambda>t a. fill t (py_str a)),
      format_selection = (\<lambda>t sel. fill t ''[...]''),
      reply_get_decrypted_password = (\<lambda>h name. Inr (demo_entries name)),
      reply_insert_password = (\<lambda>h name v. Inr ()),
      reply_generate_password = (\<lambda>h name n. Inr (replicate (nat n) (CHR ''x''))),
      reply_init = (\<lambda>h g. Inr ()),
      reply_copyfile = (\<lambda>h src dst. if src = dst then Inl SameFileError else Inr ()),
      reply_remove = (\<lambda>h path. Inr ()),
      reply_rename = (\<lambda>h src dst. Inr ()),
      totp_provisioning_uri = (\<lambda>secret. Inr (''otpauth://totp/Secret?secret='' @ py_str secret)),
      hotp_provisioning_uri = (\<lambda>secret. Inr (''otpauth://hotp/Secret?secret='' @ py_str secret)),
      parse_uri = (\<lambda>line. if take 10 line = ''otpauth://'' then Inr TOTP else Inl ValueError),
      reply_now = (\<lambda>h line. Inr ''123456''),
      reply_generate_otp = (\<lambda>h line. Inr ''654321''),
      reply_get_passwords_list = (\<lambda>h. Inr []),
      getatime = (\<lambda>h path. Inr 0),
      getmtime = (\<lambda>h path. Inr 0),
      format_datetime = (\<lambda>t. str_int t),
      html_escape = (\<lambda>x. x),
      format_info = (\<lambda>t a b c. fill (fill (fill t a) b) c)\<rparr>"

definition demo_state :: state where
  "demo_state =
     \<lparr>q = [], calls = [], passwordEntries = [],
      data_location = ''/home/u/.password-store/'', api_version = [0, 12, 0]\<rparr>"

definition entry_frame :: "string \<Rightarrow> frame" where
  "entry_frame v = \<lparr>sel_type = SelEntry, sel_value = v, sel_context_option = None\<rparr>"

text \<open>The session after the entry \<^verbatim>\<open>bank\<close> has been opened.\<close>

definition demo_opened :: state where
  "demo_opened =
     demo_state\<lparr>q := [Replace_entry_list [], Replace_command_list [], Add_entry ''********'',
                       Add_entry ''url: https://x'', Add_entry ''note''],
       calls := [Get_decrypted_password (PStr ''bank'')],
       passwordEntries :=
         [(''********'', ''key: s3cret''), (''url: https://x'', ''url: https://x''),
          (''note'', ''note'')]\<rparr>"

section \<open>Facts about the string built-ins\<close>

lemma split_acc_space:
  "isspace c \<Longrightarrow> split_acc cur (xs @ c # ys) = split_acc cur xs @ split_acc [] ys"
  by (induction xs arbitrary: cur) auto

lemma split_acc_words: "[] \<notin> set (split_acc cur s)"
  by (induction s arbitrary: cur) auto

lemma split_word_nonempty: "split identifier = d # w # ws \<Longrightarrow> w \<noteq> []"
proof
  assume eq: "split identifier = d # w # ws" and "w = []"
  then have "[] \<in> set (split_acc [] identifier)" by (simp add: split_def)
  then show False by (simp add: split_acc_words)
qed

lemma join_nonempty: "w \<noteq> [] \<Longrightarrow> join sep (w # ws) \<noteq> []"
  by (cases ws) auto

lemma plain_name_split: "plain_name name \<Longrightarrow> split name \<noteq> []"
  by (auto simp: plain_name_def)

section \<open>Cancellation\<close>

text \<open>
  C2. A \<^verbatim>\<open>None\<close> answer is swallowed for every continuation token: no exception, no
  call to a collaborator, no action on the queue, and the session state, cache included,
  is the one before. (This holds for the length step of generate as well.)
\<close>

theorem none_response_is_swallowed:
  "process_response W PNone identifier s = (None, s)"
  by (simp add: process_response_def executed_line_def run_line_def)

text \<open>
  C9. Whatever the answer and the token, \<^verbatim>\<open>process_response\<close> never ends in a statement
  of an \<^verbatim>\<open>else\<close> branch of \<^verbatim>\<open>response is not None\<close>. These are the statements the
  chain of tests arrives at for a \<^verbatim>\<open>None\<close> answer, each for some token, and line 87
  returns on such an answer first. Among them is line 104, selected for a token such as
  \<^verbatim>\<open>add_otp x TOTP\<close>, whose execution would raise \<^verbatim>\<open>TypeError\<close>.
\<close>

theorem none_branches_unreachable:
  "executed_line response identifier \<notin> set (map Inr none_branches)
   \<and> select_line PNone data \<in> set (Inl IndexError # map Inr (179 # none_branches))
   \<and> map (select_line PNone)
         [[''add_otp''], [''add_otp'', ''x'', ''TOTP''], [''add_otp'', ''x''], [''copy''],
          [''copy'', ''x''], [''edit''], [''edit'', ''x''], [''generate''], [''generate'', ''x''],
          [''init''], [''insert''], [''insert'', ''x''], [''remove''], [''remove'', ''x''],
          [''rename''], [''rename'', ''x'']] = map Inr none_branches
   \<and> run_line W 104 response data s = (Some TypeError, s)"
proof -
  have reach: "executed_line response identifier \<notin> set (map Inr none_branches)"
    by (simp add: executed_line_def select_line_def none_branches_def)
  have dead: "select_line PNone data \<in> set (Inl IndexError # map Inr (179 # none_branches))"
    by (simp add: select_line_def none_branches_def)
  have sel: "map (select_line PNone)
         [[''add_otp''], [''add_otp'', ''x'', ''TOTP''], [''add_otp'', ''x''], [''copy''],
          [''copy'', ''x''], [''edit''], [''edit'', ''x''], [''generate''], [''generate'', ''x''],
          [''init''], [''insert''], [''insert'', ''x''], [''remove''], [''remove'', ''x''],
          [''rename''], [''rename'', ''x'']] = map Inr none_branches"
    by (simp add: select_line_def none_branches_def)
  have raise: "run_line W 104 response data s = (Some TypeError, s)"
    by (simp add: run_line_def)
  from reach dead sel raise show ?thesis by blast
qed

section \<open>Generate\<close>

lemma generate_data:
  assumes "split identifier = ''generate'' # w # ws" and "response \<noteq> PNone"
  shows "process_response W response identifier s =
           m_generate W (PStr (join '' '' (w # ws)))
             (if truthy response then response else PInt 15) s"
  using assms
  by (simp add: process_response_def executed_line_def select_line_def run_line_def)

text \<open>
  C3 (amended). For a token \<^verbatim>\<open>generate <name>\<close>, an empty length answer is not a
  cancellation: the length becomes 15 and \<^verbatim>\<open>generate_password\<close> is called with the name
  and length 15, its result being inserted under the name. A missing answer
  (\<^verbatim>\<open>None\<close>) is a cancellation as everywhere else.
\<close>

theorem generate_empty_length_is_15:
  assumes "split identifier = ''generate'' # w # ws"
  shows "process_response W (PStr []) identifier s =
           (case reply_generate_password W (calls s) (PStr (join '' '' (w # ws))) 15 of
              Inl e \<Rightarrow> (Some e, called (Generate_password (PStr (join '' '' (w # ws))) 15) s)
            | Inr password \<Rightarrow>
                m_insert W (PStr (join '' '' (w # ws))) (PStr password)
                  (called (Generate_password (PStr (join '' '' (w # ws))) 15) s))
         \<and> process_response W PNone identifier s = (None, s)"
proof -
  from assms have "w \<noteq> []" by (rule split_word_nonempty)
  then have name: "join '' '' (w # ws) \<noteq> []" by (rule join_nonempty)
  have "process_response W (PStr []) identifier s =
          m_generate W (PStr (join '' '' (w # ws))) (PInt 15) s"
    using generate_data [OF assms, of "PStr []" W s] by simp
  moreover have "process_response W PNone identifier s = (None, s)"
    by (simp add: process_response_def executed_line_def run_line_def)
  ultimately show ?thesis using name by (simp add: m_generate_def)
qed

theorem generate_empty_length_is_15_witness:
  "split ''generate foo'' = [''generate'', ''foo'']
   \<and> process_response demo_world (PStr []) ''generate foo'' demo_state =
       (None, demo_state\<lparr>q := [Set_selection []],
          calls := [Generate_password (PStr ''foo'') 15,
                    Insert_password (PStr ''foo'') (PStr ''xxxxxxxxxxxxxxx'')]\<rparr>)"
proof -
  have h: "split ''generate foo'' = ''generate'' # ''foo'' # []"
    by (simp add: split_def isspace_def)
  have r: "replicate (nat 15) (CHR ''x'') = ''xxxxxxxxxxxxxxx''"
    by (simp add: numeral_eq_Suc)
  show ?thesis
    using h generate_empty_length_is_15 [OF h, of demo_world demo_state] r
    by (simp add: demo_world_def demo_state_def m_insert_def called_def put_def)
qed

text \<open>
  The claim as first stated fails for the missing answer: with the name \<^verbatim>\<open>foo\<close> known,
  a \<^verbatim>\<open>None\<close> answer calls nothing.
\<close>

theorem generate_missing_length_counterexample:
  "process_response demo_world PNone ''generate foo'' demo_state = (None, demo_state)
   \<and> Generate_password (PStr ''foo'') 15
       \<notin> set (calls (snd (process_response demo_world PNone ''generate foo'' demo_state)))"
  by (simp add: process_response_def executed_line_def run_line_def demo_state_def)

text \<open>
  C10. The length answer \<^verbatim>\<open>abc\<close> is not empty and not a number: completing generate
  with it leaves \<^verbatim>\<open>process_response\<close> with the \<^verbatim>\<open>ValueError\<close> of \<^verbatim>\<open>int\<close>, in any
  world and state, with no action put on the queue and no call made.
\<close>

theorem generate_length_abc_raises:
  "process_response W (PStr ''abc'') ''generate foo'' s = (Some ValueError, s)
   \<and> m_generate W (PStr ''foo'') (PStr ''abc'') s = (Some ValueError, s)"
  by (simp add: process_response_def executed_line_def run_line_def select_line_def split_def
      isspace_def m_generate_def int_of_str_def strip_def rstrip_def isdigit_def)

section \<open>Copy and remove\<close>

text \<open>
  C7. When \<^verbatim>\<open>shutil.copyfile\<close> finds that source and destination are the same file it
  raises \<^verbatim>\<open>SameFileError\<close> and copies nothing. \<^verbatim>\<open>_copy\<close> catches it: no exception
  leaves the method, the only call made is that refused copy, the only action put on the
  queue is the prompt for a new name with the token \<^verbatim>\<open>copy <name>\<close>, and the selection
  is not cleared.
\<close>

theorem copy_same_file_reprompts:
  assumes "truthy name" and "truthy copy_name"
    and "reply_copyfile W (calls s) (entry_path s name) (entry_path s copy_name) = Inl SameFileError"
  shows "m_copy W name copy_name s =
           (None, s\<lparr>q := q s @ [Ask_input
                      (format_msg W (gettext W ''What should the copy of {} be named?'') name) name
                      (''copy '' @ py_str name)],
                    calls := calls s @ [Copyfile (entry_path s name) (entry_path s copy_name)]\<rparr>)"
  using assms by (simp add: m_copy_def put_def called_def)

theorem copy_same_file_reprompts_witness:
  "m_copy demo_world (PStr ''mail'') (PStr ''mail'') demo_state =
     (None, demo_state\<lparr>q := [Ask_input ''What should the copy of mail be named?'' (PStr ''mail'')
                               ''copy mail''],
        calls := [Copyfile ''/home/u/.password-store/mail.gpg''
                    ''/home/u/.password-store/mail.gpg'']\<rparr>)"
proof -
  have same: "reply_copyfile demo_world (calls demo_state) (entry_path demo_state (PStr ''mail''))
                (entry_path demo_state (PStr ''mail'')) = Inl SameFileError"
    by (simp add: demo_world_def)
  have "truthy (PStr ''mail'')" by simp
  from copy_same_file_reprompts [OF this this same] show ?thesis
    by (simp add: demo_world_def demo_state_def entry_path_def os_path_join_def)
qed

text \<open>
  C8. With a name given, \<^verbatim>\<open>_remove\<close> with \<^verbatim>\<open>confirmed\<close> false returns at once: no
  call, no action, the state as before. With \<^verbatim>\<open>confirmed\<close> true it calls
  \<^verbatim>\<open>os.remove\<close> on the entry's file, \<^verbatim>\<open>os.path.join\<close> of the store's directory and
  \<^verbatim>\<open><name>.gpg\<close>, and clears the selection once that call has returned. Without an
  answer yet (\<^verbatim>\<open>None\<close>) it calls nothing either, so of the three answers a
  yes/no question can have only \<^verbatim>\<open>True\<close> deletes. The answer \<^verbatim>\<open>False\<close> to a token
  \<^verbatim>\<open>remove <name>\<close> changes nothing.
\<close>

theorem remove_only_when_confirmed:
  assumes "truthy name"
  shows "m_remove W name (PBool False) s = (None, s)
         \<and> m_remove W name (PBool True) s =
             (case reply_remove W (calls s) (entry_path s name) of
                Inl e \<Rightarrow> (Some e, called (Os_remove (entry_path s name)) s)
              | Inr u \<Rightarrow> (None, put (Set_selection []) (called (Os_remove (entry_path s name)) s)))
         \<and> calls (snd (m_remove W name PNone s)) = calls s
         \<and> entry_path s name = os_path_join (data_location s) (py_str name @ ''.gpg'')
         \<and> (split identifier = ''remove'' # w # ws
              \<longrightarrow> process_response W (PBool False) identifier s = (None, s))"
proof -
  have direct: "m_remove W name (PBool False) s = (None, s)
         \<and> m_remove W name (PBool True) s =
             (case reply_remove W (calls s) (entry_path s name) of
                Inl e \<Rightarrow> (Some e, called (Os_remove (entry_path s name)) s)
              | Inr u \<Rightarrow> (None, put (Set_selection []) (called (Os_remove (entry_path s name)) s)))
         \<and> calls (snd (m_remove W name PNone s)) = calls s
         \<and> entry_path s name = os_path_join (data_location s) (py_str name @ ''.gpg'')"
    using assms by (simp add: m_remove_def put_def called_def entry_path_def)
  have answer_no: "split identifier = ''remove'' # w # ws
      \<longrightarrow> process_response W (PBool False) identifier s = (None, s)"
  proof
    assume d: "split identifier = ''remove'' # w # ws"
    then have "w \<noteq> []" by (rule split_word_nonempty)
    then have "join '' '' (w # ws) \<noteq> []" by (rule join_nonempty)
    with d show "process_response W (PBool False) identifier s = (None, s)"
      by (simp add: process_response_def executed_line_def select_line_def run_line_def
          m_remove_def)
  qed
  from direct answer_no show ?thesis by blast
qed

theorem remove_only_when_confirmed_witness:
  "m_remove demo_world (PStr ''mail'') (PBool False) demo_state = (None, demo_state)
   \<and> m_remove demo_world (PStr ''mail'') (PBool True) demo_state =
       (None, demo_state\<lparr>q := [Set_selection []],
          calls := [Os_remove ''/home/u/.password-store/mail.gpg'']\<rparr>)
   \<and> process_response demo_world (PBool False) ''remove mail'' demo_state = (None, demo_state)"
proof -
  have t: "truthy (PStr ''mail'')" by simp
  have d: "split ''remove mail'' = ''remove'' # ''mail'' # []"
    by (simp add: split_def isspace_def)
  from remove_only_when_confirmed [OF t, of demo_world demo_state "''remove mail''" "''mail''" "[]"] d
  show ?thesis
    by (simp add: demo_world_def demo_state_def entry_path_def os_path_join_def put_def called_def)
qed

section \<open>Opening an entry and copying a field\<close>

lemma demo_world_simps:
  "gettext demo_world m = m"
  "format_msg demo_world t a = fill t (py_str a)"
  "reply_get_decrypted_password demo_world h name = Inr (demo_entries name)"
  "reply_insert_password demo_world h name v = Inr ()"
  "reply_generate_password demo_world h name n = Inr (replicate (nat n) (CHR ''x''))"
  "reply_init demo_world h g = Inr ()"
  "reply_copyfile demo_world h src dst = (if src = dst then Inl SameFileError else Inr ())"
  "reply_remove demo_world h path = Inr ()"
  "reply_rename demo_world h src dst = Inr ()"
  "totp_provisioning_uri demo_world secret = Inr (''otpauth://totp/Secret?secret='' @ py_str secret)"
  "hotp_provisioning_uri demo_world secret = Inr (''otpauth://hotp/Secret?secret='' @ py_str secret)"
  "parse_uri demo_world line = (if take 10 line = ''otpauth://'' then Inr TOTP else Inl ValueError)"
  by (simp_all add: demo_world_def)

lemma parse_otp_frame:
  "parse_otp W ls s = (r, s') \<Longrightarrow>
     q s' = q s \<and> passwordEntries s' = passwordEntries s \<and> data_location s' = data_location s"
proof (induction ls arbitrary: s r s')
  case Nil
  then show ?case by simp
next
  case (Cons line rest)
  show ?case
  proof (cases "parse_uri W line")
    case (Inl e)
    show ?thesis
    proof (cases "e = ValueError")
      case True
      obtain r1 s1 where p: "parse_otp W rest s = (r1, s1)" by (cases "parse_otp W rest s")
      from Cons.prems Inl True p have "s' = s1" by (auto split: sum.splits)
      with Cons.IH [OF p] show ?thesis by simp
    next
      case False
      with Cons.prems Inl show ?thesis by simp
    qed
  next
    case (Inr ob)
    obtain c s1 where oc: "otp_code W ob line s = (c, s1)" by (cases "otp_code W ob line s")
    then have f1: "q s1 = q s \<and> passwordEntries s1 = passwordEntries s \<and> data_location s1 = data_location s"
      by (auto simp: otp_code_def called_def split: otp.splits)
    show ?thesis
    proof (cases c)
      case (Inl e)
      with Cons.prems Inr oc have "s' = s1" by simp
      with f1 show ?thesis by simp
    next
      case (Inr code)
      obtain r2 s2 where p: "parse_otp W rest s1 = (r2, s2)" by (cases "parse_otp W rest s1")
      from Cons.prems \<open>parse_uri W line = Inr ob\<close> oc Inr p have "s' = s2"
        by (auto split: sum.splits)
      with Cons.IH [OF p] f1 show ?thesis by simp
    qed
  qed
qed

text \<open>
  C6. An entry is selected with no context option, or with one that is none of Edit, Copy,
  Rename, Remove and Add OTP. If its decrypted content, stripped on the right and with its
  OTP lines replaced, is the single line \<open>line\<close>, then no exception leaves
  \<^verbatim>\<open>selection_made\<close>, and after the two actions that empty the host's lists the queue
  receives exactly \<^verbatim>\<open>copy_to_clipboard\<close> with that line and then \<^verbatim>\<open>close\<close>: no entry
  is added, nothing is asked, and the session cache is left as it was.
\<close>

theorem single_line_entry_is_copied:
  assumes "sel_type f = SelEntry"
    and "sel_context_option f \<notin> set (map (\<lambda>m. Some (gettext W m))
           [''Edit'', ''Copy'', ''Rename'', ''Remove'', ''Add OTP''])"
    and "reply_get_decrypted_password W (calls s) (PStr (sel_value f)) = Inr (Some results)"
    and "parse_otp W (splitlines (rstrip results))
           (put (Replace_command_list []) (put (Replace_entry_list [])
              (called (Get_decrypted_password (PStr (sel_value f))) s))) = (Inr [line], s')"
  shows "selection_made W [f] s = (None, put Close (put (Copy_to_clipboard line) s'))
         \<and> q (put Close (put (Copy_to_clipboard line) s')) =
             q s @ [Replace_entry_list [], Replace_command_list [], Copy_to_clipboard line, Close]
         \<and> passwordEntries (put Close (put (Copy_to_clipboard line) s')) = passwordEntries s"
proof -
  have run: "selection_made W [f] s = open_entry W (sel_value f) s"
    using assms(1,2) by (simp add: selection_made_def)
  have "open_entry W (sel_value f) s = (None, put Close (put (Copy_to_clipboard line) s'))"
    using assms(3,4) by (simp add: open_entry_def)
  moreover from parse_otp_frame [OF assms(4)]
  have "q s' = q s @ [Replace_entry_list [], Replace_command_list []]"
    and "passwordEntries s' = passwordEntries s"
    by (simp_all add: put_def called_def)
  ultimately show ?thesis using run by (simp add: put_def)
qed

theorem single_line_entry_is_copied_witness:
  "selection_made demo_world [entry_frame ''mail''] demo_state =
     (None, demo_state\<lparr>q := [Replace_entry_list [], Replace_command_list [],
                              Copy_to_clipboard ''hunter2'', Close],
        calls := [Get_decrypted_password (PStr ''mail'')]\<rparr>)"
proof -
  let ?s1 = "put (Replace_command_list []) (put (Replace_entry_list [])
               (called (Get_decrypted_password (PStr (sel_value (entry_frame ''mail'')))) demo_state))"
  have h1: "sel_type (entry_frame ''mail'') = SelEntry" by (simp add: entry_frame_def)
  have h2: "sel_context_option (entry_frame ''mail'') \<notin> set (map (\<lambda>m. Some (gettext demo_world m))
              [''Edit'', ''Copy'', ''Rename'', ''Remove'', ''Add OTP''])"
    by (simp add: entry_frame_def)
  have h3: "reply_get_decrypted_password demo_world (calls demo_state)
              (PStr (sel_value (entry_frame ''mail''))) = Inr (Some (''hunter2'' @ [CHR 0x0A]))"
    by (simp add: demo_world_simps demo_entries_def entry_frame_def)
  have lines: "splitlines (rstrip (''hunter2'' @ [CHR 0x0A])) = [''hunter2'']"
    by (simp add: splitlines_def rstrip_def isspace_def is_linebreak_def)
  have h4: "parse_otp demo_world (splitlines (rstrip (''hunter2'' @ [CHR 0x0A]))) ?s1 =
              (Inr [''hunter2''], ?s1)"
    unfolding lines by (simp add: demo_world_simps)
  from single_line_entry_is_copied [OF h1 h2 h3 h4] show ?thesis
    by (simp add: put_def called_def entry_frame_def demo_state_def)
qed

text \<open>
  C4. The module compiles the pattern of ANSI escape sequences and never applies it. The
  entry \<^verbatim>\<open>colour\<close> of the concrete store decrypts to the one line
  \<^verbatim>\<open>ESC[31mhunter2\<close>; selecting it puts that very line on the clipboard, and the
  pattern still matches in it.
\<close>

theorem ansi_escape_reaches_clipboard:
  "reply_get_decrypted_password demo_world [] (PStr ''colour'') =
     Inr (Some (CHR 0x1B # ''[31mhunter2''))
   \<and> selection_made demo_world [entry_frame ''colour''] demo_state =
       (None, demo_state\<lparr>q := [Replace_entry_list [], Replace_command_list [],
                                Copy_to_clipboard (CHR 0x1B # ''[31mhunter2''), Close],
          calls := [Get_decrypted_password (PStr ''colour'')]\<rparr>)
   \<and> ANSIEscapeRegex_search (CHR 0x1B # ''[31mhunter2'')
   \<and> ANSIEscapeRegex_match (CHR 0x1B # ''[31mhunter2'') = Some ''hunter2''"
proof -
  have content: "reply_get_decrypted_password demo_world [] (PStr ''colour'') =
      Inr (Some (CHR 0x1B # ''[31mhunter2''))"
    by (simp add: demo_world_simps demo_entries_def)
  have lines: "splitlines (rstrip (CHR 0x1B # ''[31mhunter2'')) = [CHR 0x1B # ''[31mhunter2'']"
    by (simp add: splitlines_def rstrip_def isspace_def is_linebreak_def)
  have m: "ANSIEscapeRegex_match (CHR 0x1B # ''[31mhunter2'') = Some ''hunter2''"
    by (simp add: ansi_tail_def in_range_def)
  have run: "selection_made demo_world [entry_frame ''colour''] demo_state =
       (None, demo_state\<lparr>q := [Replace_entry_list [], Replace_command_list [],
                                Copy_to_clipboard (CHR 0x1B # ''[31mhunter2''), Close],
          calls := [Get_decrypted_password (PStr ''colour'')]\<rparr>)"
    using content
    by (simp add: selection_made_def entry_frame_def open_entry_def demo_state_def lines
        put_def called_def demo_world_simps)
  from content run m show ?thesis by simp
qed

lemma split1_acc_none:
  "sep \<noteq> [] \<Longrightarrow> \<not> contains sep t \<Longrightarrow> split1_acc sep cur t = [cur @ t]"
  by (induction t arbitrary: cur) (auto split: if_splits)

lemma take_sep_prefix:
  assumes "sep \<noteq> []" and "take (length sep) (x # a @ sep @ b) = sep"
  shows "take (length sep) (x # a @ butlast sep) = sep"
proof -
  from assms(1) obtain ys y where sep: "sep = ys @ [y]"
    by (cases sep rule: rev_cases) auto
  have "take (length sep) (x # a @ sep @ b) = take (length sep) ((x # a @ ys) @ (y # b))"
    by (simp add: sep)
  also have "\<dots> = take (length sep) (x # a @ ys)"
    by (simp add: sep)
  finally show ?thesis using assms(2) by (simp add: sep)
qed

lemma split1_acc_first:
  "sep \<noteq> [] \<Longrightarrow> \<not> contains sep (a @ butlast sep) \<Longrightarrow>
     split1_acc sep cur (a @ sep @ b) = [cur @ a, b]"
proof (induction a arbitrary: cur)
  case Nil
  then obtain c cs where "sep = c # cs" by (cases sep) auto
  then show ?case by simp
next
  case (Cons x a)
  from Cons.prems have no: "take (length sep) (x # a @ butlast sep) \<noteq> sep"
    and rest: "\<not> contains sep (a @ butlast sep)"
    by (auto split: if_splits)
  from no take_sep_prefix [OF Cons.prems(1)] have "take (length sep) (x # a @ sep @ b) \<noteq> sep"
    by blast
  then have "split1_acc sep cur ((x # a) @ sep @ b) = split1_acc sep (cur @ [x]) (a @ sep @ b)"
    by simp
  with Cons.IH [OF Cons.prems(1) rest] show ?case by simp
qed

section \<open>Copying a field of an opened entry\<close>

lemma demo_bank_opened:
  "selection_made demo_world [entry_frame ''bank''] demo_state = (None, demo_opened)"
proof -
  have lines: "splitlines (rstrip (''key: s3cret'' @ [CHR 0x0A] @ ''url: https://x'' @ [CHR 0x0A] @ ''note''))
      = [''key: s3cret'', ''url: https://x'', ''note'']"
    by (simp add: splitlines_def rstrip_def isspace_def is_linebreak_def)
  have "open_entry demo_world ''bank'' demo_state = (None, demo_opened)"
    unfolding open_entry_def demo_world_simps demo_entries_def
    by (simp add: lines [simplified] demo_world_simps demo_state_def demo_opened_def put_def
        called_def)
  then show ?thesis by (simp add: selection_made_def entry_frame_def demo_world_simps)
qed

lemma second_level:
  assumes "length selection = 2" and "sel_type (selection ! 1) \<noteq> SelNone"
  shows "selection_made W selection s = copy_field selection s"
proof -
  from assms(1) have "last selection = selection ! 1"
    by (cases selection) (auto simp: last_conv_nth)
  with assms show ?thesis by (simp add: selection_made_def)
qed

text \<open>
  C5 (amended). A second-level selection names a label of the session cache. For the
  placeholder label \<^verbatim>\<open>********\<close> the whole cached content goes to the clipboard, whether
  it contains the separator or not. For any other label: when the content does not contain
  \<^verbatim>\<open>": "\<close> the whole content is copied; when it does, and \<open>a\<close> is what precedes the first
  separator, only what follows that separator is copied. In each of these cases the cache
  is emptied and \<^verbatim>\<open>close\<close> is the next action.
\<close>

theorem field_selection_copies:
  assumes "length selection = 2" and "sel_type (selection ! 1) \<noteq> SelNone"
    and "map_of (passwordEntries s) (sel_value (selection ! 1)) = Some content"
  shows "(sel_value (selection ! 1) = ''********''
            \<longrightarrow> selection_made W selection s =
                (None, put Close ((put (Copy_to_clipboard content) s)\<lparr>passwordEntries := []\<rparr>)))
       \<and> (sel_value (selection ! 1) \<noteq> ''********'' \<and> \<not> contains '': '' content
            \<longrightarrow> selection_made W selection s =
                (None, put Close ((put (Copy_to_clipboard content) s)\<lparr>passwordEntries := []\<rparr>)))
       \<and> (sel_value (selection ! 1) \<noteq> ''********'' \<and> content = a @ '': '' @ b
              \<and> \<not> contains '': '' (a @ '':'')
            \<longrightarrow> selection_made W selection s =
                (None, put Close ((put (Copy_to_clipboard b) s)\<lparr>passwordEntries := []\<rparr>)))"
proof -
  note run = second_level [OF assms(1,2)]
  have masked: "sel_value (selection ! 1) = ''********''
      \<longrightarrow> selection_made W selection s =
          (None, put Close ((put (Copy_to_clipboard content) s)\<lparr>passwordEntries := []\<rparr>))"
  proof
    assume h: "sel_value (selection ! 1) = ''********''"
    with assms(3) have "map_of (passwordEntries s) ''********'' = Some content" by simp
    with h show "selection_made W selection s =
        (None, put Close ((put (Copy_to_clipboard content) s)\<lparr>passwordEntries := []\<rparr>))"
      by (simp add: run copy_field_def)
  qed
  have whole: "sel_value (selection ! 1) \<noteq> ''********'' \<and> \<not> contains '': '' content
      \<longrightarrow> selection_made W selection s =
          (None, put Close ((put (Copy_to_clipboard content) s)\<lparr>passwordEntries := []\<rparr>))"
  proof
    assume h: "sel_value (selection ! 1) \<noteq> ''********'' \<and> \<not> contains '': '' content"
    then have "split1 '': '' content = [content]"
      by (simp add: split1_def split1_acc_none)
    with h assms(3) show "selection_made W selection s =
        (None, put Close ((put (Copy_to_clipboard content) s)\<lparr>passwordEntries := []\<rparr>))"
      by (simp add: run copy_field_def)
  qed
  have part: "sel_value (selection ! 1) \<noteq> ''********'' \<and> content = a @ '': '' @ b
        \<and> \<not> contains '': '' (a @ '':'')
      \<longrightarrow> selection_made W selection s =
          (None, put Close ((put (Copy_to_clipboard b) s)\<lparr>passwordEntries := []\<rparr>))"
  proof
    assume h: "sel_value (selection ! 1) \<noteq> ''********'' \<and> content = a @ '': '' @ b
        \<and> \<not> contains '': '' (a @ '':'')"
    then have "\<not> contains '': '' (a @ butlast '': '')" by simp
    then have "split1_acc '': '' [] (a @ '': '' @ b) = [[] @ a, b]"
      by (intro split1_acc_first) simp_all
    with h have "split1 '': '' content = [a, b]"
      by (simp add: split1_def)
    with h assms(3) show "selection_made W selection s =
        (None, put Close ((put (Copy_to_clipboard b) s)\<lparr>passwordEntries := []\<rparr>))"
      by (simp add: run copy_field_def)
  qed
  from masked whole part show ?thesis by blast
qed

theorem field_selection_copies_witness:
  "selection_made demo_world [entry_frame ''bank'', entry_frame ''********''] demo_opened =
     (None, put Close ((put (Copy_to_clipboard ''key: s3cret'') demo_opened)\<lparr>passwordEntries := []\<rparr>))
   \<and> selection_made demo_world [entry_frame ''bank'', entry_frame ''note''] demo_opened =
     (None, put Close ((put (Copy_to_clipboard ''note'') demo_opened)\<lparr>passwordEntries := []\<rparr>))
   \<and> selection_made demo_world [entry_frame ''bank'', entry_frame ''url: https://x''] demo_opened =
     (None, put Close ((put (Copy_to_clipboard ''https://x'') demo_opened)\<lparr>passwordEntries := []\<rparr>))"
proof -
  have len: "length [entry_frame ''bank'', entry_frame l] = 2" for l by simp
  have ty: "sel_type ([entry_frame ''bank'', entry_frame l] ! 1) \<noteq> SelNone" for l
    by (simp add: entry_frame_def)
  have c1: "map_of (passwordEntries demo_opened)
      (sel_value ([entry_frame ''bank'', entry_frame ''********''] ! 1)) = Some ''key: s3cret''"
    by (simp add: demo_opened_def entry_frame_def)
  have c2: "map_of (passwordEntries demo_opened)
      (sel_value ([entry_frame ''bank'', entry_frame ''note''] ! 1)) = Some ''note''"
    by (simp add: demo_opened_def entry_frame_def)
  have c3: "map_of (passwordEntries demo_opened)
      (sel_value ([entry_frame ''bank'', entry_frame ''url: https://x''] ! 1)) = Some ''url: https://x''"
    by (simp add: demo_opened_def entry_frame_def)
  from field_selection_copies [OF len ty c1, of demo_world]
  have 1: "selection_made demo_world [entry_frame ''bank'', entry_frame ''********''] demo_opened =
     (None, put Close ((put (Copy_to_clipboard ''key: s3cret'') demo_opened)\<lparr>passwordEntries := []\<rparr>))"
    by (simp add: entry_frame_def)
  from field_selection_copies [OF len ty c2, of demo_world]
  have 2: "selection_made demo_world [entry_frame ''bank'', entry_frame ''note''] demo_opened =
     (None, put Close ((put (Copy_to_clipboard ''note'') demo_opened)\<lparr>passwordEntries := []\<rparr>))"
    by (simp add: entry_frame_def)
  from field_selection_copies [OF len ty c3, of demo_world "''url''" "''https://x''"]
  have 3: "selection_made demo_world [entry_frame ''bank'', entry_frame ''url: https://x''] demo_opened =
     (None, put Close ((put (Copy_to_clipboard ''https://x'') demo_opened)\<lparr>passwordEntries := []\<rparr>))"
    by (simp add: entry_frame_def)
  from 1 2 3 show ?thesis by blast
qed

text \<open>
  The claim as first stated fails for the placeholder: the password line of \<^verbatim>\<open>bank\<close>
  is \<^verbatim>\<open>key: s3cret\<close>, which contains the separator, and selecting \<^verbatim>\<open>********\<close> copies
  all of it, not \<^verbatim>\<open>s3cret\<close>.
\<close>

theorem placeholder_field_counterexample:
  "map_of (passwordEntries demo_opened) ''********'' = Some ''key: s3cret''
   \<and> contains '': '' ''key: s3cret''
   \<and> Copy_to_clipboard ''s3cret''
       \<notin> set (q (snd (selection_made demo_world
                        [entry_frame ''bank'', entry_frame ''********''] demo_opened)))
   \<and> Copy_to_clipboard ''key: s3cret''
       \<in> set (q (snd (selection_made demo_world
                        [entry_frame ''bank'', entry_frame ''********''] demo_opened)))"
  by (simp add: selection_made_def copy_field_def entry_frame_def demo_opened_def demo_state_def
      put_def)

section \<open>The continuation protocol\<close>

text \<open>
  What \<^verbatim>\<open>process_response\<close> does with the token of each prompt: the bare operation
  name, and the operation name followed by a plain name.
\<close>

lemma answer_ask:
  "ask_token a = Some t \<Longrightarrow> answer W r (None, put a s) = process_response W r t (put a s)"
  by (simp add: answer_def put_def)

lemma first_init:
  "r \<noteq> PNone \<Longrightarrow> process_response W r ''init'' s = m_init W r s"
  by (simp add: process_response_def executed_line_def select_line_def split_def isspace_def
      run_line_def)

lemma first_add_otp:
  "r \<noteq> PNone \<Longrightarrow> process_response W r ''add_otp'' s = m_add_otp W r PNone PNone s"
  by (simp add: process_response_def executed_line_def select_line_def split_def isspace_def
      run_line_def)

lemma first_insert:
  "r \<noteq> PNone \<Longrightarrow> process_response W r ''insert'' s = m_insert W r PNone s"
  by (simp add: process_response_def executed_line_def select_line_def split_def isspace_def
      run_line_def)

lemma token_insert:
  assumes "plain_name name" and "r \<noteq> PNone"
  shows "process_response W r (''insert '' @ name) s = m_insert W (PStr name) r s"
proof -
  have d: "split (''insert '' @ name) = ''insert'' # split name"
    by (simp add: split_def isspace_def)
  from assms(1) have ne: "split name \<noteq> []" by (rule plain_name_split)
  from assms(1) have j: "join '' '' (split name) = name" by (simp add: plain_name_def)
  show ?thesis unfolding process_response_def executed_line_def d using assms(2) ne j
    by (simp add: select_line_def run_line_def)
qed

lemma first_edit:
  "r \<noteq> PNone \<Longrightarrow> process_response W r ''edit'' s = m_edit W r PNone s"
  by (simp add: process_response_def executed_line_def select_line_def split_def isspace_def
      run_line_def)

lemma token_edit:
  assumes "plain_name name" and "r \<noteq> PNone"
  shows "process_response W r (''edit '' @ name) s = m_edit W (PStr name) r s"
proof -
  have d: "split (''edit '' @ name) = ''edit'' # split name"
    by (simp add: split_def isspace_def)
  from assms(1) have ne: "split name \<noteq> []" by (rule plain_name_split)
  from assms(1) have j: "join '' '' (split name) = name" by (simp add: plain_name_def)
  show ?thesis unfolding process_response_def executed_line_def d using assms(2) ne j
    by (simp add: select_line_def run_line_def)
qed

lemma first_generate:
  "r \<noteq> PNone \<Longrightarrow> process_response W r ''generate'' s = m_generate W r PNone s"
  by (simp add: process_response_def executed_line_def select_line_def split_def isspace_def
      run_line_def)

lemma token_generate:
  assumes "plain_name name" and "r \<noteq> PNone"
  shows "process_response W r (''generate '' @ name) s = m_generate W (PStr name) (if truthy r then r else PInt 15) s"
proof -
  have d: "split (''generate '' @ name) = ''generate'' # split name"
    by (simp add: split_def isspace_def)
  from assms(1) have ne: "split name \<noteq> []" by (rule plain_name_split)
  from assms(1) have j: "join '' '' (split name) = name" by (simp add: plain_name_def)
  show ?thesis unfolding process_response_def executed_line_def d using assms(2) ne j
    by (simp add: select_line_def run_line_def)
qed

lemma first_copy:
  "r \<noteq> PNone \<Longrightarrow> process_response W r ''copy'' s = m_copy W r PNone s"
  by (simp add: process_response_def executed_line_def select_line_def split_def isspace_def
      run_line_def)

lemma token_copy:
  assumes "plain_name name" and "r \<noteq> PNone"
  shows "process_response W r (''copy '' @ name) s = m_copy W (PStr name) r s"
proof -
  have d: "split (''copy '' @ name) = ''copy'' # split name"
    by (simp add: split_def isspace_def)
  from assms(1) have ne: "split name \<noteq> []" by (rule plain_name_split)
  from assms(1) have j: "join '' '' (split name) = name" by (simp add: plain_name_def)
  show ?thesis unfolding process_response_def executed_line_def d using assms(2) ne j
    by (simp add: select_line_def run_line_def)
qed

lemma first_rename:
  "r \<noteq> PNone \<Longrightarrow> process_response W r ''rename'' s = m_rename W r PNone s"
  by (simp add: process_response_def executed_line_def select_line_def split_def isspace_def
      run_line_def)

lemma token_rename:
  assumes "plain_name name" and "r \<noteq> PNone"
  shows "process_response W r (''rename '' @ name) s = m_rename W (PStr name) r s"
proof -
  have d: "split (''rename '' @ name) = ''rename'' # split name"
    by (simp add: split_def isspace_def)
  from assms(1) have ne: "split name \<noteq> []" by (rule plain_name_split)
  from assms(1) have j: "join '' '' (split name) = name" by (simp add: plain_name_def)
  show ?thesis unfolding process_response_def executed_line_def d using assms(2) ne j
    by (simp add: select_line_def run_line_def)
qed

lemma first_remove:
  "r \<noteq> PNone \<Longrightarrow> process_response W r ''remove'' s = m_remove W r PNone s"
  by (simp add: process_response_def executed_line_def select_line_def split_def isspace_def
      run_line_def)

lemma token_remove:
  assumes "plain_name name" and "r \<noteq> PNone"
  shows "process_response W r (''remove '' @ name) s = m_remove W (PStr name) r s"
proof -
  have d: "split (''remove '' @ name) = ''remove'' # split name"
    by (simp add: split_def isspace_def)
  from assms(1) have ne: "split name \<noteq> []" by (rule plain_name_split)
  from assms(1) have j: "join '' '' (split name) = name" by (simp add: plain_name_def)
  show ?thesis unfolding process_response_def executed_line_def d using assms(2) ne j
    by (simp add: select_line_def run_line_def)
qed

lemma token_add_otp_type:
  assumes "plain_name name" and "last (split name) \<notin> {''TOTP'', ''HOTP''}" and "r \<noteq> PNone"
  shows "process_response W r (''add_otp '' @ name) s = m_add_otp W (PStr name) r PNone s"
proof -
  have d: "split (''add_otp '' @ name) = ''add_otp'' # split name"
    by (simp add: split_def isspace_def)
  from assms(1) have ne: "split name \<noteq> []" by (rule plain_name_split)
  from assms(1) have j: "join '' '' (split name) = name" by (simp add: plain_name_def)
  show ?thesis unfolding process_response_def executed_line_def d using assms(2,3) ne j
    by (simp add: select_line_def run_line_def)
qed

lemma token_add_otp_secret:
  assumes "plain_name name" and "typ \<in> {''TOTP'', ''HOTP''}" and "r \<noteq> PNone"
  shows "process_response W r (''add_otp '' @ name @ '' '' @ typ) s =
           m_add_otp W (PStr name) (PStr typ) r s"
proof -
  have sp: "isspace (CHR '' '')" by (simp add: isspace_def)
  from assms(2) have w: "split_acc [] typ = [typ]" by (auto simp: isspace_def)
  have "split (''add_otp '' @ name @ '' '' @ typ) = ''add_otp'' # split_acc [] (name @ CHR '' '' # typ)"
    by (simp add: split_def isspace_def)
  also have "\<dots> = ''add_otp'' # split name @ [typ]"
    by (simp only: split_acc_space [OF sp] w split_def)
  finally have d: "split (''add_otp '' @ name @ '' '' @ typ) = ''add_otp'' # split name @ [typ]" .
  from assms(1) have j: "join '' '' (split name) = name" by (simp add: plain_name_def)
  show ?thesis unfolding process_response_def executed_line_def d using assms(2,3) j
    by (auto simp add: select_line_def run_line_def)
qed

text \<open>
  The calls an operation makes, and the exception it ends in, depend on the state only
  through the calls made before and the store's directory.
\<close>

lemma frame_insert:
  "calls s' = calls s \<Longrightarrow> backend (m_insert W n v s') = backend (m_insert W n v s)"
  by (simp add: m_insert_def backend_def put_def called_def split: sum.splits)

lemma frame_generate:
  "calls s' = calls s \<Longrightarrow> backend (m_generate W n l s') = backend (m_generate W n l s)"
  by (simp add: m_generate_def m_insert_def backend_def put_def called_def split: sum.splits)

lemma frame_init:
  "calls s' = calls s \<Longrightarrow> backend (m_init W g s') = backend (m_init W g s)"
  by (simp add: m_init_def backend_def put_def called_def split: sum.splits)

lemma frame_copy:
  "calls s' = calls s \<Longrightarrow> data_location s' = data_location s \<Longrightarrow>
     backend (m_copy W n c s') = backend (m_copy W n c s)"
  by (simp add: m_copy_def backend_def put_def called_def entry_path_def split: sum.splits)

lemma frame_rename:
  "calls s' = calls s \<Longrightarrow> data_location s' = data_location s \<Longrightarrow>
     backend (m_rename W n c s') = backend (m_rename W n c s)"
  by (simp add: m_rename_def backend_def put_def called_def entry_path_def split: sum.splits)

lemma frame_remove:
  "calls s' = calls s \<Longrightarrow> data_location s' = data_location s \<Longrightarrow>
     backend (m_remove W n c s') = backend (m_remove W n c s)"
  by (simp add: m_remove_def backend_def put_def called_def entry_path_def split: sum.splits)

lemma frame_add_otp:
  "calls s' = calls s \<Longrightarrow>
     backend (m_add_otp W n t x s') = backend (m_add_otp W n t x s)"
  by (simp add: m_add_otp_def backend_def put_def called_def finish_def
      split: sum.splits option.splits)

text \<open>Each operation, driven through its prompts, arrives at the call with all parameters.\<close>

lemma drive_insert:
  assumes "plain_name name" and "truthy v"
  shows "backend (answers W [PStr name, v] (m_insert W PNone PNone s)) =
           backend (m_insert W (PStr name) v s)"
proof -
  let ?a1 = "Ask_input (gettext W ''What is the name of the password?'') (PStr []) ''insert''"
  let ?a2 = "Ask_input_multi_line (format_msg W (gettext W ''What should the value of {} be?'') (PStr name)) (PStr []) (''insert '' @ name)"
  from assms(1) have nn: "name \<noteq> []" by (simp add: plain_name_def)
  from assms(2) have vn: "v \<noteq> PNone" by auto
  have t1: "ask_token ?a1 = Some ''insert''" by simp
  have t2: "ask_token ?a2 = Some (''insert '' @ name)" by simp
  have 0: "m_insert W PNone PNone s = (None, put ?a1 s)"
    by (simp add: m_insert_def)
  have 1: "answer W (PStr name) (None, put ?a1 s) = m_insert W (PStr name) PNone (put ?a1 s)"
    by (simp only: answer_ask [OF t1] first_insert [of "PStr name", simplified])
  have 2: "m_insert W (PStr name) PNone (put ?a1 s) = (None, put ?a2 (put ?a1 s))"
    using nn by (simp add: m_insert_def)
  have 3: "answer W v (None, put ?a2 (put ?a1 s)) = m_insert W (PStr name) v (put ?a2 (put ?a1 s))"
    by (simp only: answer_ask [OF t2] token_insert [OF assms(1) vn])
  have 4: "answers W [PStr name, v] (m_insert W PNone PNone s) = m_insert W (PStr name) v (put ?a2 (put ?a1 s))"
    by (simp only: answers.simps 0 1 2 3)
  have 5: "backend (m_insert W (PStr name) v (put ?a2 (put ?a1 s))) = backend (m_insert W (PStr name) v s)"
    by (rule frame_insert) (simp_all add: put_def)
  show ?thesis by (simp only: 4 5)
qed

lemma drive_generate:
  assumes "plain_name name" and "truthy v"
  shows "backend (answers W [PStr name, v] (m_generate W PNone PNone s)) =
           backend (m_generate W (PStr name) v s)"
proof -
  let ?a1 = "Ask_input (gettext W ''Generate a random password under which name?'') (PStr []) ''generate''"
  let ?a2 = "Ask_input (gettext W ''How many characters long should the password be?'') (PStr ''15'') (''generate '' @ name)"
  from assms(1) have nn: "name \<noteq> []" by (simp add: plain_name_def)
  from assms(2) have vn: "v \<noteq> PNone" by auto
  have t1: "ask_token ?a1 = Some ''generate''" by simp
  have t2: "ask_token ?a2 = Some (''generate '' @ name)" by simp
  have 0: "m_generate W PNone PNone s = (None, put ?a1 s)"
    by (simp add: m_generate_def)
  have 1: "answer W (PStr name) (None, put ?a1 s) = m_generate W (PStr name) PNone (put ?a1 s)"
    by (simp only: answer_ask [OF t1] first_generate [of "PStr name", simplified])
  have 2: "m_generate W (PStr name) PNone (put ?a1 s) = (None, put ?a2 (put ?a1 s))"
    using nn by (simp add: m_generate_def)
  have 3: "answer W v (None, put ?a2 (put ?a1 s)) = m_generate W (PStr name) v (put ?a2 (put ?a1 s))"
    by (simp only: answer_ask [OF t2] token_generate [OF assms(1) vn] assms(2) if_True)
  have 4: "answers W [PStr name, v] (m_generate W PNone PNone s) = m_generate W (PStr name) v (put ?a2 (put ?a1 s))"
    by (simp only: answers.simps 0 1 2 3)
  have 5: "backend (m_generate W (PStr name) v (put ?a2 (put ?a1 s))) = backend (m_generate W (PStr name) v s)"
    by (rule frame_generate) (simp_all add: put_def)
  show ?thesis by (simp only: 4 5)
qed

lemma drive_copy:
  assumes "plain_name name" and "truthy v"
  shows "backend (answers W [PStr name, v] (m_copy W PNone PNone s)) =
           backend (m_copy W (PStr name) v s)"
proof -
  let ?a1 = "Ask_input (gettext W ''Copy which password?'') (PStr []) ''copy''"
  let ?a2 = "Ask_input (format_msg W (gettext W ''What should the copy of {} be named?'') (PStr name)) (PStr name) (''copy '' @ name)"
  from assms(1) have nn: "name \<noteq> []" by (simp add: plain_name_def)
  from assms(2) have vn: "v \<noteq> PNone" by auto
  have t1: "ask_token ?a1 = Some ''copy''" by simp
  have t2: "ask_token ?a2 = Some (''copy '' @ name)" by simp
  have 0: "m_copy W PNone PNone s = (None, put ?a1 s)"
    by (simp add: m_copy_def)
  have 1: "answer W (PStr name) (None, put ?a1 s) = m_copy W (PStr name) PNone (put ?a1 s)"
    by (simp only: answer_ask [OF t1] first_copy [of "PStr name", simplified])
  have 2: "m_copy W (PStr name) PNone (put ?a1 s) = (None, put ?a2 (put ?a1 s))"
    using nn by (simp add: m_copy_def)
  have 3: "answer W v (None, put ?a2 (put ?a1 s)) = m_copy W (PStr name) v (put ?a2 (put ?a1 s))"
    by (simp only: answer_ask [OF t2] token_copy [OF assms(1) vn])
  have 4: "answers W [PStr name, v] (m_copy W PNone PNone s) = m_copy W (PStr name) v (put ?a2 (put ?a1 s))"
    by (simp only: answers.simps 0 1 2 3)
  have 5: "backend (m_copy W (PStr name) v (put ?a2 (put ?a1 s))) = backend (m_copy W (PStr name) v s)"
    by (rule frame_copy) (simp_all add: put_def)
  show ?thesis by (simp only: 4 5)
qed

lemma drive_rename:
  assumes "plain_name name" and "truthy v"
  shows "backend (answers W [PStr name, v] (m_rename W PNone PNone s)) =
           backend (m_rename W (PStr name) v s)"
proof -
  let ?a1 = "Ask_input (gettext W ''Rename which password?'') (PStr []) ''rename''"
  let ?a2 = "Ask_input (format_msg W (gettext W ''What should the new name of {} be?'') (PStr name)) (PStr name) (''rename '' @ name)"
  from assms(1) have nn: "name \<noteq> []" by (simp add: plain_name_def)
  from assms(2) have vn: "v \<noteq> PNone" by auto
  have t1: "ask_token ?a1 = Some ''rename''" by simp
  have t2: "ask_token ?a2 = Some (''rename '' @ name)" by simp
  have 0: "m_rename W PNone PNone s = (None, put ?a1 s)"
    by (simp add: m_rename_def)
  have 1: "answer W (PStr name) (None, put ?a1 s) = m_rename W (PStr name) PNone (put ?a1 s)"
    by (simp only: answer_ask [OF t1] first_rename [of "PStr name", simplified])
  have 2: "m_rename W (PStr name) PNone (put ?a1 s) = (None, put ?a2 (put ?a1 s))"
    using nn by (simp add: m_rename_def)
  have 3: "answer W v (None, put ?a2 (put ?a1 s)) = m_rename W (PStr name) v (put ?a2 (put ?a1 s))"
    by (simp only: answer_ask [OF t2] token_rename [OF assms(1) vn])
  have 4: "answers W [PStr name, v] (m_rename W PNone PNone s) = m_rename W (PStr name) v (put ?a2 (put ?a1 s))"
    by (simp only: answers.simps 0 1 2 3)
  have 5: "backend (m_rename W (PStr name) v (put ?a2 (put ?a1 s))) = backend (m_rename W (PStr name) v s)"
    by (rule frame_rename) (simp_all add: put_def)
  show ?thesis by (simp only: 4 5)
qed

lemma drive_remove:
  assumes "plain_name name"
  shows "backend (answers W [PStr name, PBool b] (m_remove W PNone PNone s)) =
           backend (m_remove W (PStr name) (PBool b) s)"
proof -
  let ?a1 = "Ask_input (gettext W ''Remove which password?'') (PStr []) ''remove''"
  let ?a2 = "Ask_question (format_msg W (gettext W ''Are you sure you want to remove {}?'') (PStr name)) (''remove '' @ name)"
  from assms have nn: "name \<noteq> []" by (simp add: plain_name_def)
  have vn: "PBool b \<noteq> PNone" by simp
  have t1: "ask_token ?a1 = Some ''remove''" by simp
  have t2: "ask_token ?a2 = Some (''remove '' @ name)" by simp
  have 0: "m_remove W PNone PNone s = (None, put ?a1 s)"
    by (simp add: m_remove_def)
  have 1: "answer W (PStr name) (None, put ?a1 s) = m_remove W (PStr name) PNone (put ?a1 s)"
    by (simp only: answer_ask [OF t1] first_remove [of "PStr name", simplified])
  have 2: "m_remove W (PStr name) PNone (put ?a1 s) = (None, put ?a2 (put ?a1 s))"
    using nn by (simp add: m_remove_def)
  have 3: "answer W (PBool b) (None, put ?a2 (put ?a1 s)) = m_remove W (PStr name) (PBool b) (put ?a2 (put ?a1 s))"
    by (simp only: answer_ask [OF t2] token_remove [OF assms(1) vn])
  have 4: "answers W [PStr name, PBool b] (m_remove W PNone PNone s) = m_remove W (PStr name) (PBool b) (put ?a2 (put ?a1 s))"
    by (simp only: answers.simps 0 1 2 3)
  have 5: "backend (m_remove W (PStr name) (PBool b) (put ?a2 (put ?a1 s))) = backend (m_remove W (PStr name) (PBool b) s)"
    by (rule frame_remove) (simp_all add: put_def)
  show ?thesis by (simp only: 4 5)
qed

lemma drive_init:
  assumes "truthy g"
  shows "backend (answers W [g] (m_init W PNone s)) = backend (m_init W g s)"
proof -
  let ?a1 = "Ask_input (gettext W ''Please provide a GPG ID to initialize this directory with.'')
               (PStr []) ''init''"
  from assms have gn: "g \<noteq> PNone" by auto
  have t1: "ask_token ?a1 = Some ''init''" by simp
  have 0: "m_init W PNone s = (None, put ?a1 s)"
    by (simp add: m_init_def)
  have 1: "answer W g (None, put ?a1 s) = m_init W g (put ?a1 s)"
    by (simp only: answer_ask [OF t1] first_init [OF gn])
  have 2: "answers W [g] (m_init W PNone s) = m_init W g (put ?a1 s)"
    by (simp only: answers.simps 0 1)
  have 3: "backend (m_init W g (put ?a1 s)) = backend (m_init W g s)"
    by (rule frame_init) (simp add: put_def)
  show ?thesis by (simp only: 2 3)
qed

lemma drive_edit:
  assumes "plain_name name" and "truthy v"
    and "reply_get_decrypted_password W (calls s) (PStr name) = Inr d"
  shows "calls (snd (answers W [PStr name, v] (m_edit W PNone PNone s))) =
           calls s @ [Get_decrypted_password (PStr name), Insert_password (PStr name) v]"
proof -
  let ?a1 = "Ask_input (gettext W ''What is the name of the password to edit?'') (PStr []) ''edit''"
  let ?a2 = "Ask_input_multi_line (format_msg W (gettext W ''What should the value of {} be?'')
               (PStr name)) (opt_val d) (''edit '' @ name)"
  let ?s1 = "called (Get_decrypted_password (PStr name)) (put ?a1 s)"
  from assms(1) have nn: "name \<noteq> []" by (simp add: plain_name_def)
  from assms(2) have vn: "v \<noteq> PNone" by auto
  have t1: "ask_token ?a1 = Some ''edit''" by simp
  have t2: "ask_token ?a2 = Some (''edit '' @ name)" by simp
  have 0: "m_edit W PNone PNone s = (None, put ?a1 s)"
    by (simp add: m_edit_def)
  have 1: "answer W (PStr name) (None, put ?a1 s) = m_edit W (PStr name) PNone (put ?a1 s)"
    by (simp only: answer_ask [OF t1] first_edit [of "PStr name", simplified])
  have 2: "m_edit W (PStr name) PNone (put ?a1 s) = (None, put ?a2 ?s1)"
    using nn assms(3) by (simp add: m_edit_def put_def)
  have 3: "answer W v (None, put ?a2 ?s1) = m_edit W (PStr name) v (put ?a2 ?s1)"
    by (simp only: answer_ask [OF t2] token_edit [OF assms(1) vn])
  have 4: "answers W [PStr name, v] (m_edit W PNone PNone s) = m_edit W (PStr name) v (put ?a2 ?s1)"
    by (simp only: answers.simps 0 1 2 3)
  have "calls (snd (m_edit W (PStr name) v (put ?a2 ?s1))) =
          calls s @ [Get_decrypted_password (PStr name), Insert_password (PStr name) v]"
    using nn assms(2) by (simp add: m_edit_def put_def called_def split: sum.splits)
  then show ?thesis by (simp only: 4)
qed

lemma direct_edit:
  assumes "name \<noteq> []" and "truthy v"
  shows "calls (snd (m_edit W (PStr name) v s)) = calls s @ [Insert_password (PStr name) v]"
  using assms by (simp add: m_edit_def put_def called_def split: sum.splits)

lemma drive_add_otp:
  assumes "plain_name name" and "last (split name) \<notin> {''TOTP'', ''HOTP''}"
    and "typ \<in> {''TOTP'', ''HOTP''}" and "truthy secret"
  shows "backend (answers W [PStr name, PStr typ, secret] (m_add_otp W PNone PNone PNone s)) =
           backend (m_add_otp W (PStr name) (PStr typ) secret s)"
proof -
  let ?a1 = "Ask_input (gettext W ''Add OTP to which password?'') (PStr []) ''add_otp''"
  let ?a2 = "Ask_choice (gettext W ''Use which OTP type?'') [''TOTP'', ''HOTP''] (''add_otp '' @ name)"
  let ?a3 = "Ask_input (gettext W ''What is the OTP secret?'') (PStr [])
               (''add_otp '' @ name @ '' '' @ typ)"
  from assms(1) have nn: "name \<noteq> []" by (simp add: plain_name_def)
  from assms(3) have tn: "typ \<noteq> []" by auto
  from assms(4) have sn: "secret \<noteq> PNone" by auto
  have pn: "PStr typ \<noteq> PNone" by simp
  have t1: "ask_token ?a1 = Some ''add_otp''" by simp
  have t2: "ask_token ?a2 = Some (''add_otp '' @ name)" by simp
  have t3: "ask_token ?a3 = Some (''add_otp '' @ name @ '' '' @ typ)" by simp
  have 0: "m_add_otp W PNone PNone PNone s = (None, put ?a1 s)"
    by (simp add: m_add_otp_def)
  have 1: "answer W (PStr name) (None, put ?a1 s) = m_add_otp W (PStr name) PNone PNone (put ?a1 s)"
    by (simp only: answer_ask [OF t1] first_add_otp [of "PStr name", simplified])
  have 2: "m_add_otp W (PStr name) PNone PNone (put ?a1 s) = (None, put ?a2 (put ?a1 s))"
    using nn by (simp add: m_add_otp_def)
  have 3: "answer W (PStr typ) (None, put ?a2 (put ?a1 s)) =
             m_add_otp W (PStr name) (PStr typ) PNone (put ?a2 (put ?a1 s))"
    by (simp only: answer_ask [OF t2] token_add_otp_type [OF assms(1,2) pn])
  have 4: "m_add_otp W (PStr name) (PStr typ) PNone (put ?a2 (put ?a1 s)) =
             (None, put ?a3 (put ?a2 (put ?a1 s)))"
    using nn tn by (simp add: m_add_otp_def)
  have 5: "answer W secret (None, put ?a3 (put ?a2 (put ?a1 s))) =
             m_add_otp W (PStr name) (PStr typ) secret (put ?a3 (put ?a2 (put ?a1 s)))"
    by (simp only: answer_ask [OF t3] token_add_otp_secret [OF assms(1,3) sn])
  have 6: "answers W [PStr name, PStr typ, secret] (m_add_otp W PNone PNone PNone s) =
             m_add_otp W (PStr name) (PStr typ) secret (put ?a3 (put ?a2 (put ?a1 s)))"
    by (simp only: answers.simps 0 1 2 3 4 5)
  have 7: "backend (m_add_otp W (PStr name) (PStr typ) secret (put ?a3 (put ?a2 (put ?a1 s)))) =
             backend (m_add_otp W (PStr name) (PStr typ) secret s)"
    by (rule frame_add_otp) (simp add: put_def)
  show ?thesis by (simp only: 6 7)
qed

text \<open>
  C1 (amended). Let the entry name be plain (not empty, its words separated by single
  spaces, no whitespace in front or behind) and the second parameter be given (not
  empty). Then for insert, generate, copy, rename, remove and init, answering the prompts
  one by one, each answer handed back with the token of the prompt it answers, makes the
  same calls with the same arguments, and ends in the same exception if any, as the
  operation invoked with all parameters at once. The same holds for add-OTP when the last
  word of the name is neither \<^verbatim>\<open>TOTP\<close> nor \<^verbatim>\<open>HOTP\<close>, the type is one of the two and the
  secret is given. For edit the last call is the same \<^verbatim>\<open>insert_password\<close>; the prompt
  for the value reads the entry first, which is one more call, and that read has to return.
\<close>

theorem prompt_cycles_reach_same_call:
  assumes "plain_name name" and "truthy v"
  shows "backend (answers W [PStr name, v] (m_insert W PNone PNone s)) =
           backend (m_insert W (PStr name) v s)
       \<and> backend (answers W [PStr name, v] (m_generate W PNone PNone s)) =
           backend (m_generate W (PStr name) v s)
       \<and> backend (answers W [PStr name, v] (m_copy W PNone PNone s)) =
           backend (m_copy W (PStr name) v s)
       \<and> backend (answers W [PStr name, v] (m_rename W PNone PNone s)) =
           backend (m_rename W (PStr name) v s)
       \<and> backend (answers W [PStr name, PBool b] (m_remove W PNone PNone s)) =
           backend (m_remove W (PStr name) (PBool b) s)
       \<and> backend (answers W [v] (m_init W PNone s)) = backend (m_init W v s)
       \<and> (last (split name) \<notin> {''TOTP'', ''HOTP''} \<and> typ \<in> {''TOTP'', ''HOTP''} \<and> truthy secret
            \<longrightarrow> backend (answers W [PStr name, PStr typ, secret] (m_add_otp W PNone PNone PNone s)) =
                backend (m_add_otp W (PStr name) (PStr typ) secret s))
       \<and> (reply_get_decrypted_password W (calls s) (PStr name) = Inr d
            \<longrightarrow> calls (snd (answers W [PStr name, v] (m_edit W PNone PNone s))) =
                  calls s @ [Get_decrypted_password (PStr name), Insert_password (PStr name) v]
                \<and> calls (snd (m_edit W (PStr name) v s)) = calls s @ [Insert_password (PStr name) v])"
proof -
  from assms(1) have nn: "name \<noteq> []" by (simp add: plain_name_def)
  note two = drive_insert [OF assms] drive_generate [OF assms] drive_copy [OF assms]
    drive_rename [OF assms] drive_remove [OF assms(1)] drive_init [OF assms(2)]
  have otp: "last (split name) \<notin> {''TOTP'', ''HOTP''} \<and> typ \<in> {''TOTP'', ''HOTP''} \<and> truthy secret
      \<longrightarrow> backend (answers W [PStr name, PStr typ, secret] (m_add_otp W PNone PNone PNone s)) =
          backend (m_add_otp W (PStr name) (PStr typ) secret s)"
    using drive_add_otp [OF assms(1)] by blast
  have ed: "reply_get_decrypted_password W (calls s) (PStr name) = Inr d
      \<longrightarrow> calls (snd (answers W [PStr name, v] (m_edit W PNone PNone s))) =
            calls s @ [Get_decrypted_password (PStr name), Insert_password (PStr name) v]
          \<and> calls (snd (m_edit W (PStr name) v s)) = calls s @ [Insert_password (PStr name) v]"
    using drive_edit [OF assms] direct_edit [OF nn assms(2)] by blast
  from two otp ed show ?thesis by blast
qed

theorem prompt_cycles_reach_same_call_witness:
  "plain_name ''my mail''
   \<and> backend (answers demo_world [PStr ''my mail'', PStr ''3''] (m_insert demo_world PNone PNone demo_state))
       = (None, [Insert_password (PStr ''my mail'') (PStr ''3'')])
   \<and> backend (answers demo_world [PStr ''my mail'', PStr ''3''] (m_generate demo_world PNone PNone demo_state))
       = (None, [Generate_password (PStr ''my mail'') 3, Insert_password (PStr ''my mail'') (PStr ''xxx'')])
   \<and> backend (answers demo_world [PStr ''my mail'', PStr ''3''] (m_copy demo_world PNone PNone demo_state))
       = (None, [Copyfile ''/home/u/.password-store/my mail.gpg'' ''/home/u/.password-store/3.gpg''])
   \<and> backend (answers demo_world [PStr ''my mail'', PStr ''3''] (m_rename demo_world PNone PNone demo_state))
       = (None, [Os_rename ''/home/u/.password-store/my mail.gpg'' ''/home/u/.password-store/3.gpg''])
   \<and> backend (answers demo_world [PStr ''my mail'', PBool True] (m_remove demo_world PNone PNone demo_state))
       = (None, [Os_remove ''/home/u/.password-store/my mail.gpg''])
   \<and> backend (answers demo_world [PStr ''3''] (m_init demo_world PNone demo_state))
       = (None, [Init_store (PStr ''3'')])
   \<and> backend (answers demo_world [PStr ''my mail'', PStr ''TOTP'', PStr ''JBSWY3DP'']
         (m_add_otp demo_world PNone PNone PNone demo_state))
       = (None, [Get_decrypted_password (PStr ''my mail''),
                 Insert_password (PStr ''my mail'')
                   (PStr (''None'' @ [CHR 0x0A] @ ''otpauth://totp/Secret?secret=JBSWY3DP''))])
   \<and> calls (snd (answers demo_world [PStr ''my mail'', PStr ''3''] (m_edit demo_world PNone PNone demo_state)))
       = [Get_decrypted_password (PStr ''my mail''), Insert_password (PStr ''my mail'') (PStr ''3'')]"
proof -
  have pl: "plain_name ''my mail''"
    by (simp add: plain_name_def split_def isspace_def)
  have tv: "truthy (PStr ''3'')" by simp
  have otp: "last (split ''my mail'') \<notin> {''TOTP'', ''HOTP''} \<and> ''TOTP'' \<in> {''TOTP'', ''HOTP''}
      \<and> truthy (PStr ''JBSWY3DP'')"
    by (simp add: split_def isspace_def)
  have rd: "reply_get_decrypted_password demo_world (calls demo_state) (PStr ''my mail'') = Inr None"
    by (simp add: demo_world_simps demo_entries_def)
  have three: "int_of_str ''3'' = Inr 3"
    by (simp add: int_of_str_def strip_def rstrip_def isspace_def isdigit_def)
  have xxx: "replicate 3 (CHR ''x'') = ''xxx''"
    by (simp add: numeral_eq_Suc)
  have direct:
    "backend (m_insert demo_world (PStr ''my mail'') (PStr ''3'') demo_state)
       = (None, [Insert_password (PStr ''my mail'') (PStr ''3'')])"
    "backend (m_generate demo_world (PStr ''my mail'') (PStr ''3'') demo_state)
       = (None, [Generate_password (PStr ''my mail'') 3, Insert_password (PStr ''my mail'') (PStr ''xxx'')])"
    "backend (m_copy demo_world (PStr ''my mail'') (PStr ''3'') demo_state)
       = (None, [Copyfile ''/home/u/.password-store/my mail.gpg'' ''/home/u/.password-store/3.gpg''])"
    "backend (m_rename demo_world (PStr ''my mail'') (PStr ''3'') demo_state)
       = (None, [Os_rename ''/home/u/.password-store/my mail.gpg'' ''/home/u/.password-store/3.gpg''])"
    "backend (m_remove demo_world (PStr ''my mail'') (PBool True) demo_state)
       = (None, [Os_remove ''/home/u/.password-store/my mail.gpg''])"
    "backend (m_init demo_world (PStr ''3'') demo_state) = (None, [Init_store (PStr ''3'')])"
    "backend (m_add_otp demo_world (PStr ''my mail'') (PStr ''TOTP'') (PStr ''JBSWY3DP'') demo_state)
       = (None, [Get_decrypted_password (PStr ''my mail''),
                 Insert_password (PStr ''my mail'')
                   (PStr (''None'' @ [CHR 0x0A] @ ''otpauth://totp/Secret?secret=JBSWY3DP''))])"
    by (simp_all add: backend_def m_insert_def m_generate_def m_copy_def m_rename_def m_remove_def
        m_init_def m_add_otp_def otp_uri_def finish_def opt_val_def three xxx demo_world_simps
        demo_entries_def demo_state_def entry_path_def os_path_join_def put_def called_def)
  from prompt_cycles_reach_same_call [OF pl tv, of demo_world demo_state True "''TOTP''"
      "PStr ''JBSWY3DP''" None] otp rd direct pl
  show ?thesis by (simp add: demo_state_def)
qed

text \<open>
  The claim as first stated, for every choice of parameter values, fails for a name that
  is not plain. With two spaces in \<^verbatim>\<open>my  mail\<close> the cycles write the entry
  \<^verbatim>\<open>my mail\<close>, the direct invocation writes \<^verbatim>\<open>my  mail\<close>. With the entry named
  \<^verbatim>\<open>TOTP\<close>, the token \<^verbatim>\<open>add_otp TOTP\<close> is read as a type without a name, and the
  cycles never reach the store.
\<close>

theorem prompt_cycles_counterexample:
  "backend (answers demo_world [PStr ''my  mail'', PStr ''pw'']
       (m_insert demo_world PNone PNone demo_state))
     \<noteq> backend (m_insert demo_world (PStr ''my  mail'') (PStr ''pw'') demo_state)
   \<and> backend (answers demo_world [PStr ''TOTP'', PStr ''TOTP'', PStr ''JBSWY3DP'']
       (m_add_otp demo_world PNone PNone PNone demo_state))
     \<noteq> backend (m_add_otp demo_world (PStr ''TOTP'') (PStr ''TOTP'') (PStr ''JBSWY3DP'') demo_state)"
proof -
  have i1: "backend (answers demo_world [PStr ''my  mail'', PStr ''pw'']
       (m_insert demo_world PNone PNone demo_state))
     = (None, [Insert_password (PStr ''my mail'') (PStr ''pw'')])"
    by (simp add: backend_def answer_def process_response_def executed_line_def select_line_def
        run_line_def split_def isspace_def m_insert_def put_def called_def demo_world_simps
        demo_state_def)
  have i2: "backend (m_insert demo_world (PStr ''my  mail'') (PStr ''pw'') demo_state)
     = (None, [Insert_password (PStr ''my  mail'') (PStr ''pw'')])"
    by (simp add: backend_def m_insert_def put_def called_def demo_world_simps demo_state_def)
  have o1: "backend (answers demo_world [PStr ''TOTP'', PStr ''TOTP'', PStr ''JBSWY3DP'']
       (m_add_otp demo_world PNone PNone PNone demo_state)) = (None, [])"
    by (simp add: backend_def answer_def process_response_def executed_line_def select_line_def
        run_line_def split_def isspace_def m_add_otp_def put_def called_def demo_world_simps
        demo_state_def)
  have o2: "backend (m_add_otp demo_world (PStr ''TOTP'') (PStr ''TOTP'') (PStr ''JBSWY3DP'') demo_state)
     = (None, [Get_decrypted_password (PStr ''TOTP''),
                 Insert_password (PStr ''TOTP'')
                   (PStr (''None'' @ [CHR 0x0A] @ ''otpauth://totp/Secret?secret=JBSWY3DP''))])"
    by (simp add: backend_def m_add_otp_def otp_uri_def finish_def opt_val_def put_def called_def
        demo_world_simps demo_entries_def demo_state_def)
  show ?thesis unfolding i1 i2 o1 o2 by simp
qed

end
